theory Spec2Isabelle
  imports Main "HOL-Library.Char_ord" "HOL-Library.List_Lexorder" "HOL-Library.Word"
begin

section \<open>JavaScript values and objects\<close>

text \<open>
  The values that travel between the service and its callers. A number is an integer
  from \<open>- 2 ^ 53\<close> to \<open>2 ^ 53 - 1\<close> (keys and counts): a double holds each of them
  exactly and prints it in plain decimal. A timestamp is the string that
  \<^verbatim>\<open>new Date().toISOString()\<close> returns. An object is a finite map from property
  names to values; reading a missing property gives \<^verbatim>\<open>undefined\<close>.
\<close>

datatype jsval = Undefined | Null | Bool bool | Num "54 word" | Str string

type_synonym obj = "string \<rightharpoonup> jsval"

type_synonym row = obj

fun truthy :: "jsval \<Rightarrow> bool" where
  "truthy Undefined = False"
| "truthy Null = False"
| "truthy (Bool b) = b"
| "truthy (Num n) = (n \<noteq> 0)"
| "truthy (Str s) = (s \<noteq> [])"

definition get_prop :: "obj \<Rightarrow> string \<Rightarrow> jsval" where
  "get_prop ob k = (case ob k of None \<Rightarrow> Undefined | Some v \<Rightarrow> v)"

text \<open>Decimal digits of a natural number, for numbers inside template literals.\<close>

fun digits :: "nat \<Rightarrow> string" where
  "digits n =
     (if n < 10 then [char_of (48 + n)]
      else digits (n div 10) @ [char_of (48 + n mod 10)])"

declare digits.simps [simp del]

text \<open>
  The string a value turns into inside a template literal \<^verbatim>\<open>`${v}`\<close>. The query
  builder writes the value of an equality filter the same way
  (\<^verbatim>\<open>`eq.${value}`\<close>).
\<close>

fun to_text :: "jsval \<Rightarrow> string" where
  "to_text Undefined = ''undefined''"
| "to_text Null = ''null''"
| "to_text (Bool b) = (if b then ''true'' else ''false'')"
| "to_text (Num n) =
     (if sint n < 0 then ''-'' @ digits (nat (- sint n)) else digits (nat (sint n)))"
| "to_text (Str s) = s"

section \<open>The remote store\<close>

text \<open>
  The service talks to a relational store through a query builder. A request names a
  table, the select shape, the filters and the order; the store answers with a pair
  \<^verbatim>\<open>{data, error}\<close>, or the call throws.
\<close>

text \<open>An error object: the store's, or an exception's. It is never falsy.\<close>

datatype cause = Cause string

text \<open>
  A filter as it goes out: the column, and the text of the value or of the pattern. An
  equality filter carries no type: \<^verbatim>\<open>.eq('id', 2)\<close> and \<^verbatim>\<open>.eq('id', '2')\<close> are the
  same request \<^verbatim>\<open>id=eq.2\<close>.
\<close>

datatype cond =
    Eq string string
  | ILike string string
  | OrFilter string

record query =
  table :: string
  columns :: string
  conds :: "cond list"
  order_by :: "(string \<times> bool) option"

datatype request =
    Select query
  | SelectSingle query
  | Insert string "row list"
  | UpdateSingle string obj "cond list"

text \<open>
  What the client hands to the service when the store does not serve a request: an
  error (\<open>Rejects\<close>), an exception (\<open>Throws\<close>), or neither data nor error (\<open>Silent\<close>,
  the client's answer to a 404 with an empty body).
\<close>

datatype fault = Rejects cause | Throws cause | Silent

datatype 'a response = Reply "'a option" "cause option" | Raise cause

fun unserved :: "fault \<Rightarrow> 'a response" where
  "unserved (Rejects c) = Reply None (Some c)"
| "unserved (Throws c) = Raise c"
| "unserved Silent = Reply None None"

fun fault_error :: "fault \<Rightarrow> cause option" where
  "fault_error (Rejects c) = Some c"
| "fault_error (Throws c) = Some c"
| "fault_error Silent = None"

text \<open>
  What the source does not fix is a field of the store: which requests it does not serve
  in which state (\<open>refuses\<close>: an unreachable server, a violated constraint, a denied
  permission, a value that does not fit the column), how it compares a column with the
  text of an equality filter (\<open>equals\<close>), the collation of its \<^verbatim>\<open>ORDER BY\<close>, its
  pattern matching, its reading of a raw \<^verbatim>\<open>or\<close> filter string, the embedded relations
  of a select shape, and the column defaults of an inserted row.
\<close>

record store =
  tables :: "string \<Rightarrow> row list"
  refuses :: "(string \<Rightarrow> row list) \<Rightarrow> request \<Rightarrow> fault option"
  equals :: "string \<Rightarrow> jsval \<Rightarrow> bool"
  collate :: "jsval \<Rightarrow> jsval \<Rightarrow> bool"
  ilike :: "string \<Rightarrow> jsval \<Rightarrow> bool"
  or_filter :: "string \<Rightarrow> row \<Rightarrow> bool"
  embed :: "string \<Rightarrow> string \<Rightarrow> row \<Rightarrow> row"
  defaults :: "string \<Rightarrow> row"

definition cell :: "row \<Rightarrow> string \<Rightarrow> jsval" where
  "cell r c = (case r c of None \<Rightarrow> Null | Some v \<Rightarrow> v)"

text \<open>A filter on one row; a column the row lacks is null.\<close>

fun holds :: "store \<Rightarrow> row \<Rightarrow> cond \<Rightarrow> bool" where
  "holds st r (Eq c txt) = equals st txt (cell r c)"
| "holds st r (ILike c pat) = ilike st pat (cell r c)"
| "holds st r (OrFilter s) = or_filter st s r"

definition matches :: "store \<Rightarrow> cond list \<Rightarrow> row \<Rightarrow> bool" where
  "matches st cs r = list_all (holds st r) cs"

fun insert_by :: "('a \<Rightarrow> 'a \<Rightarrow> bool) \<Rightarrow> 'a \<Rightarrow> 'a list \<Rightarrow> 'a list" where
  "insert_by le x [] = [x]"
| "insert_by le x (y # ys) = (if le x y then x # y # ys else y # insert_by le x ys)"

fun sort_by :: "('a \<Rightarrow> 'a \<Rightarrow> bool) \<Rightarrow> 'a list \<Rightarrow> 'a list" where
  "sort_by le [] = []"
| "sort_by le (x # xs) = insert_by le x (sort_by le xs)"

definition order_rows :: "store \<Rightarrow> (string \<times> bool) option \<Rightarrow> row list \<Rightarrow> row list" where
  "order_rows st ord rs =
     (case ord of
        None \<Rightarrow> rs
      | Some (c, ascending) \<Rightarrow>
          sort_by (\<lambda>a b. if ascending then collate st (cell a c) (cell b c)
                          else collate st (cell b c) (cell a c)) rs)"

definition shape :: "store \<Rightarrow> query \<Rightarrow> row \<Rightarrow> row" where
  "shape st q r = (if columns q = ''*'' then r else embed st (table q) (columns q) r)"

definition run_query :: "store \<Rightarrow> query \<Rightarrow> row list" where
  "run_query st q =
     map (shape st q) (order_rows st (order_by q) (filter (matches st (conds q)) (tables st (table q))))"

text \<open>A plural read: every matching row, unless the store does not serve the request.\<close>

definition remote_select :: "store \<Rightarrow> query \<Rightarrow> row list response" where
  "remote_select st q =
     (case refuses st (tables st) (Select q) of
        Some f \<Rightarrow> unserved f
      | None \<Rightarrow> Reply (Some (run_query st q)) None)"

text \<open>
  A singular read (\<^verbatim>\<open>.single()\<close>): exactly one matching row, else the store's error
  \<^verbatim>\<open>PGRST116\<close>.
\<close>

definition remote_single :: "store \<Rightarrow> query \<Rightarrow> row response" where
  "remote_single st q =
     (case refuses st (tables st) (SelectSingle q) of
        Some f \<Rightarrow> unserved f
      | None \<Rightarrow>
          (case run_query st q of
             [r] \<Rightarrow> Reply (Some r) None
           | _ \<Rightarrow> Reply None (Some (Cause ''PGRST116''))))"

text \<open>
  \<^verbatim>\<open>.insert(rows).select()\<close>: each new row is the given object over the table's column
  defaults, appended to the table; the answer is the inserted rows. An insert that is
  not served stores nothing.
\<close>

definition remote_insert :: "store \<Rightarrow> string \<Rightarrow> obj list \<Rightarrow> row list response \<times> store" where
  "remote_insert st t new =
     (case refuses st (tables st) (Insert t new) of
        Some f \<Rightarrow> (unserved f, st)
      | None \<Rightarrow>
          (let rs = map (\<lambda>r. defaults st t ++ r) new
           in (Reply (Some rs) None, st\<lparr>tables := (tables st)(t := tables st t @ rs)\<rparr>)))"

text \<open>
  \<^verbatim>\<open>.update(patch).eq(...).select().single()\<close>: the patch overwrites its own columns in
  the matching row and leaves the others. A singular answer is asked for, so the store
  keeps the update only when exactly one row matched; otherwise it answers
  \<^verbatim>\<open>PGRST116\<close> and the table is as before.
\<close>

definition remote_update_single ::
  "store \<Rightarrow> string \<Rightarrow> obj \<Rightarrow> cond list \<Rightarrow> row response \<times> store" where
  "remote_update_single st t patch cs =
     (case refuses st (tables st) (UpdateSingle t patch cs) of
        Some f \<Rightarrow> (unserved f, st)
      | None \<Rightarrow>
          (case filter (matches st cs) (tables st t) of
             [r] \<Rightarrow>
               (Reply (Some (r ++ patch)) None,
                st\<lparr>tables := (tables st)
                   (t := map (\<lambda>x. if matches st cs x then x ++ patch else x) (tables st t))\<rparr>)
           | _ \<Rightarrow> (Reply None (Some (Cause ''PGRST116'')), st)))"

text \<open>
  A request body is JSON: a property whose value is \<^verbatim>\<open>undefined\<close> is not sent.
\<close>

definition to_json :: "obj \<Rightarrow> obj" where
  "to_json ob = (\<lambda>k. case ob k of Some Undefined \<Rightarrow> None | v \<Rightarrow> v)"

section \<open>The service\<close>

text \<open>
  A method body can throw; \<open>Inl\<close> is the exception that leaves it. Every method wraps
  its body in \<^verbatim>\<open>try { ... } catch (error) { return { data: null, error } }\<close>.
\<close>

record 'a envelope =
  data :: "'a option"
  error :: "cause option"

definition try_catch :: "cause + 'a \<Rightarrow> (cause \<Rightarrow> cause + 'a) \<Rightarrow> cause + 'a" where
  "try_catch body handler = (case body of Inl e \<Rightarrow> handler e | Inr v \<Rightarrow> Inr v)"

definition await :: "'a response \<Rightarrow> cause + ('a option \<times> cause option)" where
  "await resp = (case resp of Raise c \<Rightarrow> Inl c | Reply d e \<Rightarrow> Inr (d, e))"

text \<open>
  The body shared by the uncached methods:
  \<^verbatim>\<open>const { data, error } = await ...; if (error) throw error; return { data, error: null }\<close>
  inside the \<^verbatim>\<open>try\<close>.
\<close>

definition settle :: "'a response \<Rightarrow> cause + 'a envelope" where
  "settle resp =
     try_catch
       (case await resp of
          Inl e \<Rightarrow> Inl e
        | Inr (d, err) \<Rightarrow>
            (case err of Some e \<Rightarrow> Inl e | None \<Rightarrow> Inr \<lparr>data = d, error = None\<rparr>))
       (\<lambda>e. Inr \<lparr>data = None, error = Some e\<rparr>)"

record cache =
  countries :: "row list option"
  universities :: "row list option"
  courses :: "row list option"
  pathways :: "row list option"

record service =
  cache :: cache

definition constructor :: service where
  "constructor =
     \<lparr>cache = \<lparr>countries = None, universities = None, courses = None, pathways = None\<rparr>\<rparr>"

text \<open>
  An \<^verbatim>\<open>async\<close> method runs without interruption up to its first \<^verbatim>\<open>await\<close> of the
  store and is resumed when the answer arrives. The cached methods are written in these
  two halves, so that calls that overlap can be told from calls that follow one another.
\<close>

datatype 'a step = Finished "cause + 'a" | Awaiting query

subsection \<open>Countries\<close>

definition countries_query :: query where
  "countries_query =
     \<lparr>table = ''n_countries'', columns = ''*'', conds = [],
      order_by = Some (''country_name'', True)\<rparr>"

definition getAllCountries_enter :: "service \<Rightarrow> row list envelope step" where
  "getAllCountries_enter this =
     (if countries (cache this) \<noteq> None
      then Finished (Inr \<lparr>data = countries (cache this), error = None\<rparr>)
      else Awaiting countries_query)"

definition getAllCountries_resume ::
  "row list response \<Rightarrow> service \<Rightarrow> (cause + row list envelope) \<times> service" where
  "getAllCountries_resume resp this =
     (case await resp of
        Inl e \<Rightarrow> (Inr \<lparr>data = None, error = Some e\<rparr>, this)
      | Inr (d, err) \<Rightarrow>
          (case err of
             Some e \<Rightarrow> (Inr \<lparr>data = None, error = Some e\<rparr>, this)
           | None \<Rightarrow>
               (Inr \<lparr>data = d, error = None\<rparr>,
                this\<lparr>cache := (cache this)\<lparr>countries := d\<rparr>\<rparr>)))"

definition getAllCountries :: "store \<Rightarrow> service \<Rightarrow> (cause + row list envelope) \<times> service" where
  "getAllCountries st this =
     (case getAllCountries_enter this of
        Finished r \<Rightarrow> (r, this)
      | Awaiting q \<Rightarrow> getAllCountries_resume (remote_select st q) this)"

definition getCountryById_query :: "jsval \<Rightarrow> query" where
  "getCountryById_query countryId =
     \<lparr>table = ''n_countries'', columns = ''*'', conds = [Eq ''country_id'' (to_text countryId)],
      order_by = None\<rparr>"

definition getCountryById :: "store \<Rightarrow> jsval \<Rightarrow> cause + row envelope" where
  "getCountryById st countryId = settle (remote_single st (getCountryById_query countryId))"

subsection \<open>Universities\<close>

text \<open>
  A select shape is written as the query builder sends it, without the white space of
  the source's template literal.
\<close>

definition university_columns :: string where
  "university_columns = ''*,n_countries(country_id,country_name)''"

definition universities_query :: query where
  "universities_query =
     \<lparr>table = ''new_universities'', columns = university_columns, conds = [],
      order_by = Some (''university_name'', True)\<rparr>"

definition getAllUniversities :: "store \<Rightarrow> cause + row list envelope" where
  "getAllUniversities st = settle (remote_select st universities_query)"

definition getUniversitiesByCountry_query :: "jsval \<Rightarrow> query" where
  "getUniversitiesByCountry_query countryId =
     \<lparr>table = ''new_universities'', columns = university_columns,
      conds = [Eq ''country_id'' (to_text countryId)],
      order_by = Some (''university_name'', True)\<rparr>"

definition getUniversitiesByCountry :: "store \<Rightarrow> jsval \<Rightarrow> cause + row list envelope" where
  "getUniversitiesByCountry st countryId = settle (remote_select st (getUniversitiesByCountry_query countryId))"

definition getUniversityById_query :: "jsval \<Rightarrow> query" where
  "getUniversityById_query universityId =
     \<lparr>table = ''new_universities'', columns = university_columns,
      conds = [Eq ''id'' (to_text universityId)], order_by = None\<rparr>"

definition getUniversityById :: "store \<Rightarrow> jsval \<Rightarrow> cause + row envelope" where
  "getUniversityById st universityId = settle (remote_single st (getUniversityById_query universityId))"

subsection \<open>Courses\<close>

definition course_columns :: string where
  "course_columns =
     ''*,new_universities(id,university_name,city,state,country_id,n_countries(country_id,country_name))''"

definition courses_query :: query where
  "courses_query =
     \<lparr>table = ''new_courses'', columns = course_columns, conds = [],
      order_by = Some (''program_name'', True)\<rparr>"

definition getAllCourses :: "store \<Rightarrow> cause + row list envelope" where
  "getAllCourses st = settle (remote_select st courses_query)"

definition getCoursesByUniversity_query :: "jsval \<Rightarrow> query" where
  "getCoursesByUniversity_query universityId =
     \<lparr>table = ''new_courses'', columns = course_columns,
      conds = [Eq ''university_id'' (to_text universityId)],
      order_by = Some (''program_name'', True)\<rparr>"

definition getCoursesByUniversity :: "store \<Rightarrow> jsval \<Rightarrow> cause + row list envelope" where
  "getCoursesByUniversity st universityId = settle (remote_select st (getCoursesByUniversity_query universityId))"

definition getCourseById_query :: "jsval \<Rightarrow> query" where
  "getCourseById_query courseId =
     \<lparr>table = ''new_courses'', columns = course_columns, conds = [Eq ''id'' (to_text courseId)],
      order_by = None\<rparr>"

definition getCourseById :: "store \<Rightarrow> jsval \<Rightarrow> cause + row envelope" where
  "getCourseById st courseId = settle (remote_single st (getCourseById_query courseId))"

subsection \<open>Pathways\<close>

definition pathways_query :: query where
  "pathways_query =
     \<lparr>table = ''pathways'', columns = ''*'', conds = [], order_by = Some (''name'', True)\<rparr>"

definition getAllPathways_enter :: "service \<Rightarrow> row list envelope step" where
  "getAllPathways_enter this =
     (if pathways (cache this) \<noteq> None
      then Finished (Inr \<lparr>data = pathways (cache this), error = None\<rparr>)
      else Awaiting pathways_query)"

definition getAllPathways_resume ::
  "row list response \<Rightarrow> service \<Rightarrow> (cause + row list envelope) \<times> service" where
  "getAllPathways_resume resp this =
     (case await resp of
        Inl e \<Rightarrow> (Inr \<lparr>data = None, error = Some e\<rparr>, this)
      | Inr (d, err) \<Rightarrow>
          (case err of
             Some e \<Rightarrow> (Inr \<lparr>data = None, error = Some e\<rparr>, this)
           | None \<Rightarrow>
               (Inr \<lparr>data = d, error = None\<rparr>,
                this\<lparr>cache := (cache this)\<lparr>pathways := d\<rparr>\<rparr>)))"

definition getAllPathways :: "store \<Rightarrow> service \<Rightarrow> (cause + row list envelope) \<times> service" where
  "getAllPathways st this =
     (case getAllPathways_enter this of
        Finished r \<Rightarrow> (r, this)
      | Awaiting q \<Rightarrow> getAllPathways_resume (remote_select st q) this)"

subsection \<open>Search\<close>

text \<open>
  The filters are an object; an omitted argument is the empty object. Each filter is
  guarded by \<^verbatim>\<open>if (filters.x)\<close>, the truthiness of its value.
\<close>

definition search_university_columns :: string where
  "search_university_columns = ''*,n_countries(country_id,country_name,country_code)''"

definition searchUniversities_conds :: "jsval \<Rightarrow> obj \<Rightarrow> cond list" where
  "searchUniversities_conds searchTerm filters =
     (if truthy searchTerm
      then [OrFilter (''university_name.ilike.%'' @ to_text searchTerm @
                      ''%,city.ilike.%'' @ to_text searchTerm @
                      ''%,state_province.ilike.%'' @ to_text searchTerm @ ''%'')]
      else []) @
     (if truthy (get_prop filters ''country_id'')
      then [Eq ''country_id'' (to_text (get_prop filters ''country_id''))]
      else []) @
     (if truthy (get_prop filters ''university_type'')
      then [ILike ''university_type'' (''%'' @ to_text (get_prop filters ''university_type'') @ ''%'')]
      else [])"

definition searchUniversities_query :: "jsval \<Rightarrow> obj \<Rightarrow> query" where
  "searchUniversities_query searchTerm filters =
     \<lparr>table = ''new_universities'', columns = search_university_columns,
      conds = searchUniversities_conds searchTerm filters,
      order_by = Some (''university_name'', True)\<rparr>"

definition searchUniversities :: "store \<Rightarrow> jsval \<Rightarrow> obj \<Rightarrow> cause + row list envelope" where
  "searchUniversities st searchTerm filters =
     settle (remote_select st (searchUniversities_query searchTerm filters))"

definition search_course_columns :: string where
  "search_course_columns =
     ''*,new_universities(university_id,university_name,city,state_province,country_id,n_countries(country_id,country_name,country_code))''"

definition searchCourses_conds :: "jsval \<Rightarrow> obj \<Rightarrow> cond list" where
  "searchCourses_conds searchTerm filters =
     (if truthy searchTerm
      then [ILike ''program_name'' (''%'' @ to_text searchTerm @ ''%'')]
      else []) @
     (if truthy (get_prop filters ''university_id'')
      then [Eq ''university_id'' (to_text (get_prop filters ''university_id''))]
      else []) @
     (if truthy (get_prop filters ''degree_level'')
      then [Eq ''degree_level'' (to_text (get_prop filters ''degree_level''))]
      else [])"

definition searchCourses_query :: "jsval \<Rightarrow> obj \<Rightarrow> query" where
  "searchCourses_query searchTerm filters =
     \<lparr>table = ''new_courses'', columns = search_course_columns,
      conds = searchCourses_conds searchTerm filters,
      order_by = Some (''program_name'', True)\<rparr>"

definition searchCourses :: "store \<Rightarrow> jsval \<Rightarrow> obj \<Rightarrow> cause + row list envelope" where
  "searchCourses st searchTerm filters =
     settle (remote_select st (searchCourses_query searchTerm filters))"

subsection \<open>Statistics\<close>

record stats =
  count_countries :: nat
  count_universities :: nat
  count_courses :: nat
  count_pathways :: nat

text \<open>\<^verbatim>\<open>result.data?.length || 0\<close>\<close>

definition length_or_0 :: "row list option \<Rightarrow> nat" where
  "length_or_0 d = (case d of None \<Rightarrow> 0 | Some rs \<Rightarrow> length rs)"

text \<open>
  The four list calls are started together and joined. Countries and pathways write
  different cache slots and the other two write none, so the calls are taken in the
  order of the source's array.
\<close>

definition getStatistics :: "store \<Rightarrow> service \<Rightarrow> (cause + stats) \<times> service" where
  "getStatistics st this =
     (let (countriesResult, this1) = getAllCountries st this;
          universitiesResult = getAllUniversities st;
          coursesResult = getAllCourses st;
          (pathwaysResult, this2) = getAllPathways st this1
      in (try_catch
            (case countriesResult of
               Inl e \<Rightarrow> Inl e
             | Inr c \<Rightarrow>
                 (case universitiesResult of
                    Inl e \<Rightarrow> Inl e
                  | Inr u \<Rightarrow>
                      (case coursesResult of
                         Inl e \<Rightarrow> Inl e
                       | Inr k \<Rightarrow>
                           (case pathwaysResult of
                              Inl e \<Rightarrow> Inl e
                            | Inr p \<Rightarrow>
                                Inr \<lparr>count_countries = length_or_0 (data c),
                                     count_universities = length_or_0 (data u),
                                     count_courses = length_or_0 (data k),
                                     count_pathways = length_or_0 (data p)\<rparr>))))
            (\<lambda>e. Inr \<lparr>count_countries = 0, count_universities = 0, count_courses = 0,
                       count_pathways = 0\<rparr>),
          this2))"

subsection \<open>Counselors\<close>

definition getAllCounselors_query :: query where
  "getAllCounselors_query =
     \<lparr>table = ''counselors'', columns = ''*'', conds = [Eq ''is_available'' (to_text (Bool True))],
      order_by = Some (''display_name'', True)\<rparr>"

definition getAllCounselors :: "store \<Rightarrow> cause + row list envelope" where
  "getAllCounselors st = settle (remote_select st getAllCounselors_query)"

definition getCounselorById_query :: "jsval \<Rightarrow> query" where
  "getCounselorById_query counselorId =
     \<lparr>table = ''counselors'', columns = ''*'', conds = [Eq ''id'' (to_text counselorId)],
      order_by = None\<rparr>"

definition getCounselorById :: "store \<Rightarrow> jsval \<Rightarrow> cause + row envelope" where
  "getCounselorById st counselorId = settle (remote_single st (getCounselorById_query counselorId))"

subsection \<open>Counselor requests\<close>

definition getCounselorRequestByStudent_query :: "jsval \<Rightarrow> query" where
  "getCounselorRequestByStudent_query studentId =
     \<lparr>table = ''counselor_requests'', columns = ''*'',
      conds = [Eq ''student_id'' (to_text studentId)], order_by = Some (''created_at'', False)\<rparr>"

definition getCounselorRequestByStudent :: "store \<Rightarrow> jsval \<Rightarrow> cause + row list envelope" where
  "getCounselorRequestByStudent st studentId = settle (remote_select st (getCounselorRequestByStudent_query studentId))"

definition getCounselorRequestsByCounselor_query :: "jsval \<Rightarrow> query" where
  "getCounselorRequestsByCounselor_query counselorId =
     \<lparr>table = ''counselor_requests'', columns = ''*'',
      conds = [Eq ''requested_counselor_id'' (to_text counselorId)],
      order_by = Some (''created_at'', False)\<rparr>"

definition getCounselorRequestsByCounselor :: "store \<Rightarrow> jsval \<Rightarrow> cause + row list envelope" where
  "getCounselorRequestsByCounselor st counselorId = settle (remote_select st (getCounselorRequestsByCounselor_query counselorId))"

definition createCounselorRequest ::
  "store \<Rightarrow> obj \<Rightarrow> (cause + row list envelope) \<times> store" where
  "createCounselorRequest st requestData =
     (let (resp, st') = remote_insert st ''counselor_requests'' [to_json requestData]
      in (settle resp, st'))"

definition request_columns :: string where
  "request_columns =
     ''*,counselors(id,full_name,email,counselor_type,bio,years_experience,specializations,hourly_rate,currency,average_rating,total_reviews,is_available)''"

definition getAllCounselorRequests_query :: query where
  "getAllCounselorRequests_query =
     \<lparr>table = ''counselor_requests'', columns = request_columns, conds = [],
      order_by = Some (''requested_at'', False)\<rparr>"

definition getAllCounselorRequests :: "store \<Rightarrow> cause + row list envelope" where
  "getAllCounselorRequests st = settle (remote_select st getAllCounselorRequests_query)"

definition getCounselorRequestsByStatus_query :: "jsval \<Rightarrow> query" where
  "getCounselorRequestsByStatus_query status =
     \<lparr>table = ''counselor_requests'', columns = request_columns,
      conds = [Eq ''status'' (to_text status)], order_by = Some (''requested_at'', False)\<rparr>"

definition getCounselorRequestsByStatus :: "store \<Rightarrow> jsval \<Rightarrow> cause + row list envelope" where
  "getCounselorRequestsByStatus st status = settle (remote_select st (getCounselorRequestsByStatus_query status))"

text \<open>
  The object the update sends. \<open>now1\<close> and \<open>now2\<close> are what the two calls of
  \<^verbatim>\<open>new Date().toISOString()\<close> return; an omitted \<open>adminNotes\<close> takes the default
  \<^verbatim>\<open>null\<close>.
\<close>

definition updateData :: "string \<Rightarrow> string \<Rightarrow> jsval \<Rightarrow> jsval \<Rightarrow> obj" where
  "updateData now1 now2 status adminNotes =
     (let notes = (if adminNotes = Undefined then Null else adminNotes);
          d0 = [''status'' \<mapsto> status, ''updated_at'' \<mapsto> Str now1];
          d1 = (if truthy notes then d0(''admin_notes'' \<mapsto> notes) else d0)
      in if status = Str ''approved'' then d1(''approved_at'' \<mapsto> Str now2) else d1)"

definition updateCounselorRequestStatus ::
  "store \<Rightarrow> string \<Rightarrow> string \<Rightarrow> jsval \<Rightarrow> jsval \<Rightarrow> jsval \<Rightarrow> (cause + row envelope) \<times> store" where
  "updateCounselorRequestStatus st now1 now2 requestId status adminNotes =
     (let (resp, st') =
            remote_update_single st ''counselor_requests''
              (to_json (updateData now1 now2 status adminNotes)) [Eq ''id'' (to_text requestId)]
      in (settle resp, st'))"

definition getCounselorStudents_query :: "jsval \<Rightarrow> query" where
  "getCounselorStudents_query counselorId =
     \<lparr>table = ''counselor_requests'', columns = ''*,student_id'',
      conds = [Eq ''counselor_id'' (to_text counselorId), Eq ''status'' (to_text (Str ''approved''))],
      order_by = Some (''approved_at'', False)\<rparr>"

definition getCounselorStudents :: "store \<Rightarrow> jsval \<Rightarrow> cause + row list envelope" where
  "getCounselorStudents st counselorId = settle (remote_select st (getCounselorStudents_query counselorId))"

subsection \<open>The public interface\<close>

text \<open>Every method of the class, with its arguments, and what a call hands back.\<close>

datatype op =
    GetAllCountries
  | GetCountryById jsval
  | GetAllUniversities
  | GetUniversitiesByCountry jsval
  | GetUniversityById jsval
  | GetAllCourses
  | GetCoursesByUniversity jsval
  | GetCourseById jsval
  | GetAllPathways
  | SearchUniversities jsval obj
  | SearchCourses jsval obj
  | GetStatistics
  | GetAllCounselors
  | GetCounselorById jsval
  | GetCounselorRequestByStudent jsval
  | GetCounselorRequestsByCounselor jsval
  | CreateCounselorRequest obj
  | GetAllCounselorRequests
  | GetCounselorRequestsByStatus jsval
  | UpdateCounselorRequestStatus string string jsval jsval jsval
  | GetCounselorStudents jsval

datatype outcome =
    Listed "row list envelope"
  | Found "row envelope"
  | Counted stats

definition listed :: "cause + row list envelope \<Rightarrow> cause + outcome" where
  "listed r = map_sum id Listed r"

definition found :: "cause + row envelope \<Rightarrow> cause + outcome" where
  "found r = map_sum id Found r"

fun exec :: "op \<Rightarrow> store \<times> service \<Rightarrow> (cause + outcome) \<times> store \<times> service" where
  "exec GetAllCountries (st, this) =
     (let (r, this') = getAllCountries st this in (listed r, st, this'))"
| "exec (GetCountryById i) (st, this) = (found (getCountryById st i), st, this)"
| "exec GetAllUniversities (st, this) = (listed (getAllUniversities st), st, this)"
| "exec (GetUniversitiesByCountry i) (st, this) =
     (listed (getUniversitiesByCountry st i), st, this)"
| "exec (GetUniversityById i) (st, this) = (found (getUniversityById st i), st, this)"
| "exec GetAllCourses (st, this) = (listed (getAllCourses st), st, this)"
| "exec (GetCoursesByUniversity i) (st, this) =
     (listed (getCoursesByUniversity st i), st, this)"
| "exec (GetCourseById i) (st, this) = (found (getCourseById st i), st, this)"
| "exec GetAllPathways (st, this) =
     (let (r, this') = getAllPathways st this in (listed r, st, this'))"
| "exec (SearchUniversities term filters) (st, this) =
     (listed (searchUniversities st term filters), st, this)"
| "exec (SearchCourses term filters) (st, this) =
     (listed (searchCourses st term filters), st, this)"
| "exec GetStatistics (st, this) =
     (let (r, this') = getStatistics st this in (map_sum id Counted r, st, this'))"
| "exec GetAllCounselors (st, this) = (listed (getAllCounselors st), st, this)"
| "exec (GetCounselorById i) (st, this) = (found (getCounselorById st i), st, this)"
| "exec (GetCounselorRequestByStudent i) (st, this) =
     (listed (getCounselorRequestByStudent st i), st, this)"
| "exec (GetCounselorRequestsByCounselor i) (st, this) =
     (listed (getCounselorRequestsByCounselor st i), st, this)"
| "exec (CreateCounselorRequest requestData) (st, this) =
     (let (r, st') = createCounselorRequest st requestData in (listed r, st', this))"
| "exec GetAllCounselorRequests (st, this) = (listed (getAllCounselorRequests st), st, this)"
| "exec (GetCounselorRequestsByStatus status) (st, this) =
     (listed (getCounselorRequestsByStatus st status), st, this)"
| "exec (UpdateCounselorRequestStatus now1 now2 i status notes) (st, this) =
     (let (r, st') = updateCounselorRequestStatus st now1 now2 i status notes
      in (found r, st', this))"
| "exec (GetCounselorStudents i) (st, this) = (listed (getCounselorStudents st i), st, this)"

text \<open>
  What the store's client answers to the one request that a method sends. A cached
  method sends it when its slot is empty; \<open>getStatistics\<close> sends none of its own.
\<close>

datatype answer = Rows "row list response" | Row "row response"

fun awaited :: "op \<Rightarrow> store \<Rightarrow> answer option" where
  "awaited GetAllCountries st = Some (Rows (remote_select st countries_query))"
| "awaited (GetCountryById i) st = Some (Row (remote_single st (getCountryById_query i)))"
| "awaited GetAllUniversities st = Some (Rows (remote_select st universities_query))"
| "awaited (GetUniversitiesByCountry i) st =
     Some (Rows (remote_select st (getUniversitiesByCountry_query i)))"
| "awaited (GetUniversityById i) st = Some (Row (remote_single st (getUniversityById_query i)))"
| "awaited GetAllCourses st = Some (Rows (remote_select st courses_query))"
| "awaited (GetCoursesByUniversity i) st =
     Some (Rows (remote_select st (getCoursesByUniversity_query i)))"
| "awaited (GetCourseById i) st = Some (Row (remote_single st (getCourseById_query i)))"
| "awaited GetAllPathways st = Some (Rows (remote_select st pathways_query))"
| "awaited (SearchUniversities term filters) st =
     Some (Rows (remote_select st (searchUniversities_query term filters)))"
| "awaited (SearchCourses term filters) st =
     Some (Rows (remote_select st (searchCourses_query term filters)))"
| "awaited GetStatistics st = None"
| "awaited GetAllCounselors st = Some (Rows (remote_select st getAllCounselors_query))"
| "awaited (GetCounselorById i) st = Some (Row (remote_single st (getCounselorById_query i)))"
| "awaited (GetCounselorRequestByStudent i) st =
     Some (Rows (remote_select st (getCounselorRequestByStudent_query i)))"
| "awaited (GetCounselorRequestsByCounselor i) st =
     Some (Rows (remote_select st (getCounselorRequestsByCounselor_query i)))"
| "awaited (CreateCounselorRequest requestData) st =
     Some (Rows (fst (remote_insert st ''counselor_requests'' [to_json requestData])))"
| "awaited GetAllCounselorRequests st =
     Some (Rows (remote_select st getAllCounselorRequests_query))"
| "awaited (GetCounselorRequestsByStatus status) st =
     Some (Rows (remote_select st (getCounselorRequestsByStatus_query status)))"
| "awaited (UpdateCounselorRequestStatus now1 now2 i status adminNotes) st =
     Some (Row (fst (remote_update_single st ''counselor_requests''
       (to_json (updateData now1 now2 status adminNotes)) [Eq ''id'' (to_text i)])))"
| "awaited (GetCounselorStudents i) st =
     Some (Rows (remote_select st (getCounselorStudents_query i)))"

text \<open>A run of calls, each finished before the next starts.\<close>

fun exec_all :: "op list \<Rightarrow> store \<times> service \<Rightarrow> store \<times> service" where
  "exec_all [] w = w"
| "exec_all (x # xs) w = exec_all xs (snd (exec x w))"

subsection \<open>Overlapping calls\<close>

text \<open>
  Callers that start a cached method together: each call runs to its \<^verbatim>\<open>await\<close> on the
  service as it stands, before any answer has arrived; then the answers arrive and each
  waiting call is resumed in turn. Each caller comes with the store as it is when its
  own read is served. \<open>remote_reads\<close> counts the reads that went out.
\<close>

fun resume_each ::
  "(row list response \<Rightarrow> service \<Rightarrow> (cause + row list envelope) \<times> service) \<Rightarrow>
   (row list envelope step \<times> store) list \<Rightarrow> service \<Rightarrow>
   (cause + row list envelope) list \<times> service" where
  "resume_each f [] this = ([], this)"
| "resume_each f ((Finished r, st) # rest) this =
     (let (rs, this') = resume_each f rest this in (r # rs, this'))"
| "resume_each f ((Awaiting q, st) # rest) this =
     (let (r, this1) = f (remote_select st q) this;
          (rs, this2) = resume_each f rest this1
      in (r # rs, this2))"

fun is_awaiting :: "'a step \<Rightarrow> bool" where
  "is_awaiting (Awaiting q) = True"
| "is_awaiting (Finished r) = False"

definition remote_reads :: "'a step list \<Rightarrow> nat" where
  "remote_reads steps = length (filter is_awaiting steps)"

definition concurrent_getAllCountries ::
  "store list \<Rightarrow> service \<Rightarrow> nat \<times> (cause + row list envelope) list \<times> service" where
  "concurrent_getAllCountries sts this =
     (let steps = map (\<lambda>st. (getAllCountries_enter this, st)) sts;
          (rs, this') = resume_each getAllCountries_resume steps this
      in (remote_reads (map fst steps), rs, this'))"

definition concurrent_getAllPathways ::
  "store list \<Rightarrow> service \<Rightarrow> nat \<times> (cause + row list envelope) list \<times> service" where
  "concurrent_getAllPathways sts this =
     (let steps = map (\<lambda>st. (getAllPathways_enter this, st)) sts;
          (rs, this') = resume_each getAllPathways_resume steps this
      in (remote_reads (map fst steps), rs, this'))"

text \<open>
  Calls in any order and overlap. \<open>Whole\<close> is a call that runs from its start to its end
  with nothing in between, on the store as it is then. A call of a cached method that
  others overlap is two events: it enters, and later it is resumed with the answer to
  its read; the calls that \<open>getStatistics\<close> makes are such events. The world counts the
  calls of each cached method that have entered and wait for their answer.
\<close>

datatype event =
    Whole op store
  | Enter_getAllCountries
  | Resume_getAllCountries "row list response"
  | Enter_getAllPathways
  | Resume_getAllPathways "row list response"

record world =
  svc :: service
  waiting_countries :: nat
  waiting_pathways :: nat

fun advance :: "event \<Rightarrow> world \<Rightarrow> world" where
  "advance (Whole x st) w = w\<lparr>svc := snd (snd (exec x (st, svc w)))\<rparr>"
| "advance Enter_getAllCountries w =
     (case getAllCountries_enter (svc w) of
        Finished r \<Rightarrow> w
      | Awaiting q \<Rightarrow> w\<lparr>waiting_countries := Suc (waiting_countries w)\<rparr>)"
| "advance (Resume_getAllCountries resp) w =
     (case waiting_countries w of
        0 \<Rightarrow> w
      | Suc n \<Rightarrow>
          w\<lparr>svc := snd (getAllCountries_resume resp (svc w)), waiting_countries := n\<rparr>)"
| "advance Enter_getAllPathways w =
     (case getAllPathways_enter (svc w) of
        Finished r \<Rightarrow> w
      | Awaiting q \<Rightarrow> w\<lparr>waiting_pathways := Suc (waiting_pathways w)\<rparr>)"
| "advance (Resume_getAllPathways resp) w =
     (case waiting_pathways w of
        0 \<Rightarrow> w
      | Suc n \<Rightarrow>
          w\<lparr>svc := snd (getAllPathways_resume resp (svc w)), waiting_pathways := n\<rparr>)"

fun run :: "event list \<Rightarrow> world \<Rightarrow> world" where
  "run [] w = w"
| "run (e # es) w = run es (advance e w)"

subsection \<open>Observations\<close>

text \<open>
  What the specification calls a result envelope: the call does not throw, hands back
  \<^verbatim>\<open>{data, error}\<close>, and the data is \<^verbatim>\<open>null\<close> whenever there is an error.
\<close>

fun returns_envelope :: "cause + outcome \<Rightarrow> bool" where
  "returns_envelope (Inr (Listed env)) = (error env = None \<or> data env = None)"
| "returns_envelope (Inr (Found env)) = (error env = None \<or> data env = None)"
| "returns_envelope (Inr (Counted n)) = False"
| "returns_envelope (Inl e) = False"


text \<open>
  What the specification asks of the envelope for an answer of the store's client: on an
  error or an exception \<^verbatim>\<open>{data: null, error: cause}\<close>, and else the answer's data
  with no error.
\<close>

fun conveys :: "answer \<Rightarrow> cause + outcome \<Rightarrow> bool" where
  "conveys (Rows (Raise c)) r = (r = Inr (Listed \<lparr>data = None, error = Some c\<rparr>))"
| "conveys (Rows (Reply d (Some c))) r = (r = Inr (Listed \<lparr>data = None, error = Some c\<rparr>))"
| "conveys (Rows (Reply d None)) r = (r = Inr (Listed \<lparr>data = d, error = None\<rparr>))"
| "conveys (Row (Raise c)) r = (r = Inr (Found \<lparr>data = None, error = Some c\<rparr>))"
| "conveys (Row (Reply d (Some c))) r = (r = Inr (Found \<lparr>data = None, error = Some c\<rparr>))"
| "conveys (Row (Reply d None)) r = (r = Inr (Found \<lparr>data = d, error = None\<rparr>))"

text \<open>
  The rows of the requests table that the update's filter \<^verbatim>\<open>.eq('id', requestId)\<close>
  selects: the stored request with that id, when the list has one element.
\<close>

definition stored_request :: "store \<Rightarrow> jsval \<Rightarrow> row list" where
  "stored_request st requestId =
     filter (matches st [Eq ''id'' (to_text requestId)]) (tables st ''counselor_requests'')"

section \<open>A plain store, for worked examples\<close>

text \<open>
  A store with no constraint and no failure: it serves every request, takes a column to
  equal a filter's text when the column is not null and is written that way, orders
  strings and numbers in the usual way, and matches patterns as SQL's \<^verbatim>\<open>ILIKE\<close> does
  (\<^verbatim>\<open>%\<close> any run of characters, \<^verbatim>\<open>_\<close> any one character, letters compared without
  case).
\<close>

definition sql_eq :: "string \<Rightarrow> jsval \<Rightarrow> bool" where
  "sql_eq txt v = (v \<noteq> Null \<and> v \<noteq> Undefined \<and> to_text v = txt)"

definition lower :: "char \<Rightarrow> char" where
  "lower c =
     (if (65::nat) \<le> of_char c \<and> of_char c \<le> (90::nat) then char_of (of_char c + (32::nat))
      else c)"

fun like :: "string \<Rightarrow> string \<Rightarrow> bool" where
  "like [] s = (s = [])"
| "like (p # ps) [] = (p = CHR ''%'' \<and> like ps [])"
| "like (p # ps) (c # cs) =
     (if p = CHR ''%'' then like ps (c # cs) \<or> like (p # ps) cs
      else if p = CHR ''_'' then like ps cs
      else p = c \<and> like ps cs)"

definition sql_ilike :: "string \<Rightarrow> jsval \<Rightarrow> bool" where
  "sql_ilike pat v = (case v of Str s \<Rightarrow> like (map lower pat) (map lower s) | _ \<Rightarrow> False)"

fun js_le :: "jsval \<Rightarrow> jsval \<Rightarrow> bool" where
  "js_le (Str a) (Str b) = (a \<le> b)"
| "js_le (Num a) (Num b) = (sint a \<le> sint b)"
| "js_le a b = True"

definition plain_store :: "(string \<Rightarrow> row list) \<Rightarrow> store" where
  "plain_store ts =
     \<lparr>tables = ts, refuses = (\<lambda>_ _. None), equals = sql_eq, collate = js_le, ilike = sql_ilike,
      or_filter = (\<lambda>_ _. True), embed = (\<lambda>_ _ r. r), defaults = (\<lambda>_. Map.empty)\<rparr>"

text \<open>The same store while its server cannot be reached: every request is refused.\<close>

definition unreachable_store :: "(string \<Rightarrow> row list) \<Rightarrow> store" where
  "unreachable_store ts =
     (plain_store ts)\<lparr>refuses := (\<lambda>_ _. Some (Rejects (Cause ''fetch failed'')))\<rparr>"

text \<open>The same store while every request gets the silent answer.\<close>

definition silent_store :: "(string \<Rightarrow> row list) \<Rightarrow> store" where
  "silent_store ts = (plain_store ts)\<lparr>refuses := (\<lambda>_ _. Some Silent)\<rparr>"

text \<open>The same store while reads of one table fail.\<close>

definition table_down :: "string \<Rightarrow> (string \<Rightarrow> row list) \<Rightarrow> store" where
  "table_down t ts =
     (plain_store ts)\<lparr>refuses :=
        (\<lambda>_ req. case req of
                    Select q \<Rightarrow> if table q = t then Some (Throws (Cause ''fetch failed'')) else None
                  | _ \<Rightarrow> None)\<rparr>"

text \<open>Tables to run the examples on: among them an open and an approved request.\<close>

definition open_request :: row where
  "open_request =
     [''id'' \<mapsto> Num 1, ''student_id'' \<mapsto> Num 7, ''requested_counselor_id'' \<mapsto> Num 3,
      ''status'' \<mapsto> Str ''requested'', ''requested_at'' \<mapsto> Str ''2025-03-01T09:00:00.000Z'']"

definition approved_request :: row where
  "approved_request =
     [''id'' \<mapsto> Num 2, ''student_id'' \<mapsto> Num 8, ''requested_counselor_id'' \<mapsto> Num 3,
      ''status'' \<mapsto> Str ''approved'', ''admin_notes'' \<mapsto> Str ''good fit'',
      ''requested_at'' \<mapsto> Str ''2025-03-02T09:00:00.000Z'',
      ''approved_at'' \<mapsto> Str ''2025-03-03T10:00:00.000Z'',
      ''updated_at'' \<mapsto> Str ''2025-03-03T10:00:00.000Z'']"

text \<open>A second request of student 7, who has an open one in \<open>example_tables\<close>.\<close>

definition second_request :: obj where
  "second_request =
     [''student_id'' \<mapsto> Num 7, ''requested_counselor_id'' \<mapsto> Num 4,
      ''status'' \<mapsto> Str ''requested'', ''requested_at'' \<mapsto> Str ''2025-03-05T09:00:00.000Z'']"

definition example_tables :: "string \<Rightarrow> row list" where
  "example_tables t =
     (if t = ''n_countries'' then
        [[''country_id'' \<mapsto> Num 1, ''country_name'' \<mapsto> Str ''Australia''],
         [''country_id'' \<mapsto> Num 2, ''country_name'' \<mapsto> Str ''Canada'']]
      else if t = ''new_universities'' then
        [[''id'' \<mapsto> Num 10, ''university_name'' \<mapsto> Str ''Monash'', ''country_id'' \<mapsto> Num 1,
          ''university_type'' \<mapsto> Str ''Public Research'']]
      else if t = ''new_courses'' then
        [[''id'' \<mapsto> Num 100, ''program_name'' \<mapsto> Str ''Arts'', ''university_id'' \<mapsto> Num 10,
          ''degree_level'' \<mapsto> Str ''Bachelor''],
         [''id'' \<mapsto> Num 101, ''program_name'' \<mapsto> Str ''Law'', ''university_id'' \<mapsto> Num 10,
          ''degree_level'' \<mapsto> Str ''Master''],
         [''id'' \<mapsto> Num 102, ''program_name'' \<mapsto> Str ''Music'', ''university_id'' \<mapsto> Num 10,
          ''degree_level'' \<mapsto> Str ''Bachelor'']]
      else if t = ''pathways'' then
        [[''id'' \<mapsto> Num 1, ''name'' \<mapsto> Str ''Engineering'']]
      else if t = ''counselor_requests'' then
        [open_request, approved_request]
      else [])"

text \<open>A service whose countries were loaded from \<open>example_tables\<close>.\<close>

definition loaded :: service where
  "loaded =
     \<lparr>cache = \<lparr>countries = Some (example_tables ''n_countries''), universities = None,
                courses = None, pathways = None\<rparr>\<rparr>"

section \<open>Basic facts\<close>

lemma length_insert_by: "length (insert_by le x xs) = Suc (length xs)"
  by (induction xs) auto

lemma length_sort_by: "length (sort_by le xs) = length xs"
  by (induction xs) (auto simp: length_insert_by)

lemma settle_simps:
  "settle (Raise c) = Inr \<lparr>data = None, error = Some c\<rparr>"
  "settle (Reply d (Some c)) = Inr \<lparr>data = None, error = Some c\<rparr>"
  "settle (Reply d None) = Inr \<lparr>data = d, error = None\<rparr>"
  by (simp_all add: settle_def try_catch_def await_def)

lemma settle_envelope:
  "\<exists>env. settle resp = Inr env \<and> (error env = None \<or> data env = None)"
  by (cases resp; cases "case resp of Reply d e \<Rightarrow> e | Raise c \<Rightarrow> None")
     (auto simp: settle_simps)

lemma length_run_query_all:
  "conds q = [] \<Longrightarrow> length (run_query st q) = length (tables st (table q))"
  by (auto simp: run_query_def order_rows_def matches_def length_sort_by
      split: option.splits)

lemma settle_unserved: "settle (unserved f) = Inr \<lparr>data = None, error = fault_error f\<rparr>"
  by (cases f) (simp_all add: settle_simps)

lemma settle_remote_select:
  "settle (remote_select st q) =
     (case refuses st (tables st) (Select q) of
        None \<Rightarrow> Inr \<lparr>data = Some (run_query st q), error = None\<rparr>
      | Some f \<Rightarrow> Inr \<lparr>data = None, error = fault_error f\<rparr>)"
  by (simp add: remote_select_def settle_simps settle_unserved split: option.splits)

lemma getAllCountries_resume_settle:
  "fst (getAllCountries_resume resp this) = settle resp"
  by (cases resp) (auto simp: getAllCountries_resume_def await_def settle_simps split: option.splits)

lemma getAllPathways_resume_settle:
  "fst (getAllPathways_resume resp this) = settle resp"
  by (cases resp) (auto simp: getAllPathways_resume_def await_def settle_simps split: option.splits)

lemma getAllCountries_cached:
  "countries (cache this) = Some rs \<Longrightarrow>
   getAllCountries st this = (Inr \<lparr>data = Some rs, error = None\<rparr>, this)"
  by (simp add: getAllCountries_def getAllCountries_enter_def)

lemma getAllPathways_cached:
  "pathways (cache this) = Some rs \<Longrightarrow>
   getAllPathways st this = (Inr \<lparr>data = Some rs, error = None\<rparr>, this)"
  by (simp add: getAllPathways_def getAllPathways_enter_def)

lemma getAllCountries_uncached:
  "countries (cache this) = None \<Longrightarrow>
   getAllCountries st this = getAllCountries_resume (remote_select st countries_query) this"
  by (simp add: getAllCountries_def getAllCountries_enter_def)

lemma getAllPathways_uncached:
  "pathways (cache this) = None \<Longrightarrow>
   getAllPathways st this = getAllPathways_resume (remote_select st pathways_query) this"
  by (simp add: getAllPathways_def getAllPathways_enter_def)

lemma getAllCountries_resume_state:
  "snd (getAllCountries_resume resp this) =
     (case resp of
        Reply d None \<Rightarrow> this\<lparr>cache := (cache this)\<lparr>countries := d\<rparr>\<rparr>
      | _ \<Rightarrow> this)"
  by (auto simp: getAllCountries_resume_def await_def split: response.splits option.splits)

lemma getAllPathways_resume_state:
  "snd (getAllPathways_resume resp this) =
     (case resp of
        Reply d None \<Rightarrow> this\<lparr>cache := (cache this)\<lparr>pathways := d\<rparr>\<rparr>
      | _ \<Rightarrow> this)"
  by (auto simp: getAllPathways_resume_def await_def split: response.splits option.splits)

lemma digits_examples:
  "digits 0 = ''0''" "digits (Suc 0) = ''1''" "digits 1 = ''1''" "digits 2 = ''2''"
  "digits 7 = ''7''" "digits 8 = ''8''" "digits 10 = ''10''" "digits 99 = ''99''"
  "digits 100 = ''100''" "digits 101 = ''101''" "digits 102 = ''102''" "digits 999 = ''999''"
  by code_simp+

section \<open>C9: a failed load is not cached\<close>

text \<open>
  C9. When \<open>getAllCountries\<close> or \<open>getAllPathways\<close> answers with an error, the service is
  as it was before the call, so its cache slot is still empty and the next call goes to
  the store again. A slot changes only when the store answered the read without an error,
  and then it holds the rows of that answer.
\<close>

theorem failed_load_not_cached:
  "(fst (getAllCountries st this) = Inr env \<and> error env \<noteq> None \<longrightarrow>
      snd (getAllCountries st this) = this \<and>
      getAllCountries_enter (snd (getAllCountries st this)) = Awaiting countries_query) \<and>
   (fst (getAllPathways st this) = Inr env' \<and> error env' \<noteq> None \<longrightarrow>
      snd (getAllPathways st this) = this \<and>
      getAllPathways_enter (snd (getAllPathways st this)) = Awaiting pathways_query) \<and>
   (countries (cache (snd (getAllCountries st this))) \<noteq> countries (cache this) \<longrightarrow>
      remote_select st countries_query =
        Reply (countries (cache (snd (getAllCountries st this)))) None) \<and>
   (pathways (cache (snd (getAllPathways st this))) \<noteq> pathways (cache this) \<longrightarrow>
      remote_select st pathways_query =
        Reply (pathways (cache (snd (getAllPathways st this)))) None)"
proof (intro conjI impI)
  assume a: "fst (getAllCountries st this) = Inr env \<and> error env \<noteq> None"
  then have u: "countries (cache this) = None"
    by (cases "countries (cache this)") (auto simp: getAllCountries_cached)
  from a show "snd (getAllCountries st this) = this"
    by (cases "remote_select st countries_query")
       (auto simp: getAllCountries_uncached [OF u] getAllCountries_resume_def await_def
          split: option.splits)
  then show "getAllCountries_enter (snd (getAllCountries st this)) = Awaiting countries_query"
    using u by (simp add: getAllCountries_enter_def)
next
  assume a: "fst (getAllPathways st this) = Inr env' \<and> error env' \<noteq> None"
  then have u: "pathways (cache this) = None"
    by (cases "pathways (cache this)") (auto simp: getAllPathways_cached)
  from a show "snd (getAllPathways st this) = this"
    by (cases "remote_select st pathways_query")
       (auto simp: getAllPathways_uncached [OF u] getAllPathways_resume_def await_def
          split: option.splits)
  then show "getAllPathways_enter (snd (getAllPathways st this)) = Awaiting pathways_query"
    using u by (simp add: getAllPathways_enter_def)
next
  assume a: "countries (cache (snd (getAllCountries st this))) \<noteq> countries (cache this)"
  then have u: "countries (cache this) = None"
    by (cases "countries (cache this)") (auto simp: getAllCountries_cached)
  from a show "remote_select st countries_query =
        Reply (countries (cache (snd (getAllCountries st this)))) None"
    by (cases "remote_select st countries_query")
       (auto simp: getAllCountries_uncached [OF u] getAllCountries_resume_state
          split: option.splits)
next
  assume a: "pathways (cache (snd (getAllPathways st this))) \<noteq> pathways (cache this)"
  then have u: "pathways (cache this) = None"
    by (cases "pathways (cache this)") (auto simp: getAllPathways_cached)
  from a show "remote_select st pathways_query =
        Reply (pathways (cache (snd (getAllPathways st this)))) None"
    by (cases "remote_select st pathways_query")
       (auto simp: getAllPathways_uncached [OF u] getAllPathways_resume_state
          split: option.splits)
qed

lemma unreachable_countries:
  "getAllCountries (unreachable_store example_tables) constructor =
     (Inr \<lparr>data = None, error = Some (Cause ''fetch failed'')\<rparr>, constructor)"
  by (simp add: getAllCountries_def getAllCountries_enter_def getAllCountries_resume_def
      await_def remote_select_def unreachable_store_def plain_store_def constructor_def)

lemma run_countries:
  "run_query (plain_store example_tables) countries_query = example_tables ''n_countries''"
  by (simp add: run_query_def countries_query_def plain_store_def example_tables_def
      order_rows_def matches_def shape_def cell_def)

lemma plain_store_sel:
  "tables (plain_store ts) = ts"
  "refuses (plain_store ts) = (\<lambda>_ _. None)"
  "collate (plain_store ts) = js_le"
  "ilike (plain_store ts) = sql_ilike"
  "defaults (plain_store ts) = (\<lambda>_. Map.empty)"
  "equals (plain_store ts) = sql_eq"
  "embed (plain_store ts) = (\<lambda>_ _ r. r)"
  by (simp_all add: plain_store_def)

lemma plain_countries:
  "getAllCountries (plain_store example_tables) constructor =
     (Inr \<lparr>data = Some (example_tables ''n_countries''), error = None\<rparr>, loaded)"
  by (simp add: getAllCountries_uncached getAllCountries_resume_def await_def constructor_def
      remote_select_def run_countries loaded_def plain_store_sel)

lemma run_pathways:
  "run_query (plain_store example_tables) pathways_query = example_tables ''pathways''"
  by (simp add: run_query_def pathways_query_def plain_store_def example_tables_def
      order_rows_def matches_def shape_def cell_def)

lemma unreachable_pathways:
  "getAllPathways (unreachable_store example_tables) constructor =
     (Inr \<lparr>data = None, error = Some (Cause ''fetch failed'')\<rparr>, constructor)"
  by (simp add: getAllPathways_def getAllPathways_enter_def getAllPathways_resume_def
      await_def remote_select_def unreachable_store_def plain_store_def constructor_def)

lemma plain_pathways:
  "getAllPathways (plain_store example_tables) constructor =
     (Inr \<lparr>data = Some (example_tables ''pathways''), error = None\<rparr>,
      constructor\<lparr>cache := (cache constructor)\<lparr>pathways := Some (example_tables ''pathways'')\<rparr>\<rparr>)"
  by (simp add: getAllPathways_uncached getAllPathways_resume_def await_def constructor_def
      remote_select_def run_pathways plain_store_sel)

text \<open>On the example tables: a read of an unreachable store fails and leaves the new service
  as it was; a read of the plain store fills the slot with the store's answer.\<close>

theorem failed_load_not_cached_witness:
  "fst (getAllCountries (unreachable_store example_tables) constructor) =
     Inr \<lparr>data = None, error = Some (Cause ''fetch failed'')\<rparr> \<and>
   snd (getAllCountries (unreachable_store example_tables) constructor) = constructor \<and>
   getAllCountries_enter (snd (getAllCountries (unreachable_store example_tables) constructor)) =
     Awaiting countries_query \<and>
   fst (getAllPathways (unreachable_store example_tables) constructor) =
     Inr \<lparr>data = None, error = Some (Cause ''fetch failed'')\<rparr> \<and>
   snd (getAllPathways (unreachable_store example_tables) constructor) = constructor \<and>
   getAllPathways_enter (snd (getAllPathways (unreachable_store example_tables) constructor)) =
     Awaiting pathways_query \<and>
   countries (cache (snd (getAllCountries (plain_store example_tables) constructor))) \<noteq>
     countries (cache constructor) \<and>
   remote_select (plain_store example_tables) countries_query =
     Reply (Some (example_tables ''n_countries'')) None \<and>
   pathways (cache (snd (getAllPathways (plain_store example_tables) constructor))) \<noteq>
     pathways (cache constructor) \<and>
   remote_select (plain_store example_tables) pathways_query =
     Reply (Some (example_tables ''pathways'')) None"
proof -
  let ?e = "\<lparr>data = None, error = Some (Cause ''fetch failed'')\<rparr> :: row list envelope"
  note down = failed_load_not_cached [of "unreachable_store example_tables" constructor ?e ?e]
  note up = failed_load_not_cached [of "plain_store example_tables" constructor ?e ?e]
  have c: "countries (cache loaded) \<noteq> countries (cache constructor)"
    by (simp add: loaded_def constructor_def)
  have p: "pathways (cache (constructor\<lparr>cache := (cache constructor)\<lparr>pathways := Some (example_tables ''pathways'')\<rparr>\<rparr>))
      \<noteq> pathways (cache constructor)"
    by (simp add: constructor_def)
  show ?thesis
    using down up c p
    by (simp add: unreachable_countries unreachable_pathways plain_countries plain_pathways
        loaded_def)
qed

section \<open>C5: statistics tolerate a failed collection\<close>

lemma getAllCountries_never_throws:
  "\<exists>env. fst (getAllCountries st this) = Inr env \<and> (error env = None \<or> data env = None)"
proof (cases "countries (cache this)")
  case None
  then show ?thesis
    using settle_envelope [of "remote_select st countries_query"]
    by (simp add: getAllCountries_uncached getAllCountries_resume_settle)
next
  case (Some rs)
  then show ?thesis by (simp add: getAllCountries_cached)
qed

lemma getAllPathways_never_throws:
  "\<exists>env. fst (getAllPathways st this) = Inr env \<and> (error env = None \<or> data env = None)"
proof (cases "pathways (cache this)")
  case None
  then show ?thesis
    using settle_envelope [of "remote_select st pathways_query"]
    by (simp add: getAllPathways_uncached getAllPathways_resume_settle)
next
  case (Some rs)
  then show ?thesis by (simp add: getAllPathways_cached)
qed

lemma getAllCountries_keeps_pathways:
  "pathways (cache (snd (getAllCountries st this))) = pathways (cache this)"
  by (cases "countries (cache this)")
     (auto simp: getAllCountries_uncached getAllCountries_cached getAllCountries_resume_state
        split: response.splits option.splits)

lemma getAllPathways_keeps_countries:
  "countries (cache (snd (getAllPathways st this))) = countries (cache this)"
  by (cases "pathways (cache this)")
     (auto simp: getAllPathways_uncached getAllPathways_cached getAllPathways_resume_state
        split: response.splits option.splits)

lemma getAllPathways_result_cong:
  "pathways (cache this1) = pathways (cache this) \<Longrightarrow>
   fst (getAllPathways st this1) = fst (getAllPathways st this)"
  by (cases "pathways (cache this)")
     (simp_all add: getAllPathways_uncached getAllPathways_cached getAllPathways_resume_settle)

lemma length_or_0_failed:
  "error env = None \<or> data env = None \<Longrightarrow>
   (if error env = None then length_or_0 (data env) else 0) = length_or_0 (data env)"
  by (auto simp: length_or_0_def)

lemma getStatistics_value:
  assumes "fst (getAllCountries st this) = Inr c" and "getAllUniversities st = Inr u"
    and "getAllCourses st = Inr k" and "fst (getAllPathways st this) = Inr p"
  shows "getStatistics st this =
       (Inr \<lparr>count_countries = length_or_0 (data c), count_universities = length_or_0 (data u),
             count_courses = length_or_0 (data k), count_pathways = length_or_0 (data p)\<rparr>,
        snd (getAllPathways st (snd (getAllCountries st this))))"
proof -
  have "fst (getAllPathways st (snd (getAllCountries st this))) = Inr p"
    using assms(4) getAllPathways_result_cong [OF getAllCountries_keeps_pathways] by simp
  then show ?thesis
    using assms(1-3) by (simp add: getStatistics_def try_catch_def split_beta Let_def)
qed

lemma getStatistics_never_throws: "\<exists>n. fst (getStatistics st this) = Inr n"
proof -
  obtain c where c: "fst (getAllCountries st this) = Inr c"
    using getAllCountries_never_throws by blast
  obtain u where u: "getAllUniversities st = Inr u"
    using settle_envelope unfolding getAllUniversities_def by blast
  obtain k where k: "getAllCourses st = Inr k"
    using settle_envelope unfolding getAllCourses_def by blast
  obtain p where p: "fst (getAllPathways st this) = Inr p"
    using getAllPathways_never_throws by blast
  show ?thesis
    using getStatistics_value [OF c u k p] by simp
qed

text \<open>
  C5. \<open>getStatistics\<close> never throws and never fails as a whole: each of the four list
  calls hands back an envelope, and each count is the number of rows in that call's
  data when the call has no error, and 0 when it has one.
\<close>

theorem getStatistics_counts:
  "\<exists>c u k p this'.
     fst (getAllCountries st this) = Inr c \<and> getAllUniversities st = Inr u \<and>
     getAllCourses st = Inr k \<and> fst (getAllPathways st this) = Inr p \<and>
     getStatistics st this =
       (Inr \<lparr>count_countries = (if error c = None then length_or_0 (data c) else 0),
             count_universities = (if error u = None then length_or_0 (data u) else 0),
             count_courses = (if error k = None then length_or_0 (data k) else 0),
             count_pathways = (if error p = None then length_or_0 (data p) else 0)\<rparr>,
        this')"
proof -
  obtain c where c: "fst (getAllCountries st this) = Inr c" "error c = None \<or> data c = None"
    using getAllCountries_never_throws by blast
  obtain u where u: "getAllUniversities st = Inr u" "error u = None \<or> data u = None"
    using settle_envelope unfolding getAllUniversities_def by blast
  obtain k where k: "getAllCourses st = Inr k" "error k = None \<or> data k = None"
    using settle_envelope unfolding getAllCourses_def by blast
  obtain p where p: "fst (getAllPathways st this) = Inr p" "error p = None \<or> data p = None"
    using getAllPathways_never_throws by blast
  show ?thesis
    using getStatistics_value [OF c(1) u(1) k(1) p(1)] c u k p
    by (simp add: length_or_0_failed)
qed

lemma table_down_sel:
  "tables (table_down t ts) = ts"
  "collate (table_down t ts) = js_le"
  "refuses (table_down t ts) x (Select q) =
     (if table q = t then Some (Throws (Cause ''fetch failed'')) else None)"
  by (simp_all add: table_down_def plain_store_def)

lemma run_query_all_table_down:
  "run_query (table_down t example_tables) countries_query = example_tables ''n_countries''"
  "run_query (table_down t example_tables) pathways_query = example_tables ''pathways''"
  "length (run_query (table_down t example_tables) universities_query) = 1"
  by (simp_all add: run_query_def countries_query_def pathways_query_def
      universities_query_def table_down_sel example_tables_def order_rows_def matches_def
      shape_def cell_def)

lemma query_tables:
  "table countries_query = ''n_countries''"
  "table universities_query = ''new_universities''"
  "table courses_query = ''new_courses''"
  "table pathways_query = ''pathways''"
  by (simp_all add: countries_query_def universities_query_def courses_query_def
      pathways_query_def)

lemma courses_down_calls:
  "fst (getAllCountries (table_down ''new_courses'' example_tables) constructor) =
     Inr \<lparr>data = Some (example_tables ''n_countries''), error = None\<rparr>"
  "\<exists>rs. getAllUniversities (table_down ''new_courses'' example_tables) =
     Inr \<lparr>data = Some rs, error = None\<rparr> \<and> length rs = 1"
  "getAllCourses (table_down ''new_courses'' example_tables) =
     Inr \<lparr>data = None, error = Some (Cause ''fetch failed'')\<rparr>"
  "fst (getAllPathways (table_down ''new_courses'' example_tables) constructor) =
     Inr \<lparr>data = Some (example_tables ''pathways''), error = None\<rparr>"
  by (simp_all add: getAllCountries_uncached getAllPathways_uncached constructor_def
      getAllCountries_resume_settle getAllPathways_resume_settle getAllUniversities_def
      getAllCourses_def settle_remote_select table_down_sel run_query_all_table_down
      query_tables)

text \<open>
  With the courses read failing, the other three counts are those of the tables and the
  courses count is 0.
\<close>

theorem getStatistics_counts_witness:
  "fst (getStatistics (table_down ''new_courses'' example_tables) constructor) =
     Inr \<lparr>count_countries = 2, count_universities = 1, count_courses = 0, count_pathways = 1\<rparr>"
  using getStatistics_counts [of "table_down ''new_courses'' example_tables" constructor]
    courses_down_calls
  by (auto simp: length_or_0_def example_tables_def)

section \<open>C8: what the public methods hand back\<close>

lemma listed_settle:
  "\<exists>env. listed (settle resp) = Inr (Listed env) \<and> (error env = None \<or> data env = None)"
  using settle_envelope [of resp] by (auto simp: listed_def)

lemma found_settle:
  "\<exists>env. found (settle resp) = Inr (Found env) \<and> (error env = None \<or> data env = None)"
  using settle_envelope [of resp] by (auto simp: found_def)

lemma returns_envelope_settle:
  "returns_envelope (listed (settle resp))" "returns_envelope (found (settle resp'))"
  using listed_settle [of resp] found_settle [of resp'] by auto

lemma createCounselorRequest_settle:
  "fst (createCounselorRequest st d) =
     settle (fst (remote_insert st ''counselor_requests'' [to_json d]))"
  by (simp add: createCounselorRequest_def split_beta)

lemma updateCounselorRequestStatus_settle:
  "fst (updateCounselorRequestStatus st now1 now2 i status notes) =
     settle (fst (remote_update_single st ''counselor_requests''
       (to_json (updateData now1 now2 status notes)) [Eq ''id'' (to_text i)]))"
  by (simp add: updateCounselorRequestStatus_def split_beta)

lemma exec_returns_envelope:
  assumes "op \<noteq> GetStatistics"
  shows "returns_envelope (fst (exec op (st, this)))"
  using assms
proof (cases op)
  case GetAllCountries
  then show ?thesis
    using getAllCountries_never_throws [of st this] by (auto simp: split_beta listed_def)
next
  case GetAllPathways
  then show ?thesis
    using getAllPathways_never_throws [of st this] by (auto simp: split_beta listed_def)
next
  case (CreateCounselorRequest d)
  then show ?thesis
    using listed_settle [of "fst (remote_insert st ''counselor_requests'' [to_json d])"]
    by (auto simp: split_beta createCounselorRequest_settle)
next
  case (UpdateCounselorRequestStatus now1 now2 i status adminNotes)
  then show ?thesis
    using found_settle [of "fst (remote_update_single st ''counselor_requests''
     (to_json (updateData now1 now2 status adminNotes)) [Eq ''id'' (to_text i)])"]
    by (auto simp: split_beta updateCounselorRequestStatus_settle)
qed (simp_all add: returns_envelope_settle getCountryById_def getAllUniversities_def
      getUniversitiesByCountry_def getUniversityById_def getAllCourses_def
      getCoursesByUniversity_def getCourseById_def searchUniversities_def searchCourses_def
      getAllCounselors_def getCounselorById_def getCounselorRequestByStudent_def
      getCounselorRequestsByCounselor_def getAllCounselorRequests_def
      getCounselorRequestsByStatus_def getCounselorStudents_def)

lemma conveys_settle:
  "conveys (Rows resp) (listed (settle resp))" "conveys (Row resp') (found (settle resp'))"
proof -
  show "conveys (Rows resp) (listed (settle resp))"
  proof (cases resp)
    case (Reply d e)
    then show ?thesis by (cases e) (simp_all add: settle_simps listed_def)
  next
    case (Raise c)
    then show ?thesis by (simp add: settle_simps listed_def)
  qed
  show "conveys (Row resp') (found (settle resp'))"
  proof (cases resp')
    case (Reply d e)
    then show ?thesis by (cases e) (simp_all add: settle_simps found_def)
  next
    case (Raise c)
    then show ?thesis by (simp add: settle_simps found_def)
  qed
qed

lemma exec_conveys:
  assumes "op \<noteq> GetStatistics"
    and "op = GetAllCountries \<longrightarrow> countries (cache this) = None"
    and "op = GetAllPathways \<longrightarrow> pathways (cache this) = None"
  shows "\<exists>a. awaited op st = Some a \<and> conveys a (fst (exec op (st, this)))"
  using assms
  by (cases op)
     (simp_all add: split_beta conveys_settle
        getAllCountries_uncached getAllPathways_uncached getAllCountries_resume_settle
        getAllPathways_resume_settle createCounselorRequest_settle
        updateCounselorRequestStatus_settle getCountryById_def getAllUniversities_def
        getUniversitiesByCountry_def getUniversityById_def getAllCourses_def
        getCoursesByUniversity_def getCourseById_def searchUniversities_def searchCourses_def
        getAllCounselors_def getCounselorById_def getCounselorRequestByStudent_def
        getCounselorRequestsByCounselor_def getAllCounselorRequests_def
        getCounselorRequestsByStatus_def getCounselorStudents_def)

text \<open>
  C8 as the code has it. Every public method but \<open>getStatistics\<close> hands back a result
  envelope and never throws. What the envelope holds follows the answer of the store's
  client to the method's request (for a cached method, when its slot is empty): on an
  error or an exception it is \<^verbatim>\<open>{data: null, error: cause}\<close> with that cause, and when
  the client reports no error it is the answer's data, be it \<^verbatim>\<open>null\<close>, with no error.
  \<open>getStatistics\<close> never throws either, and hands back the four counts, which is no
  envelope.
\<close>

theorem envelope_or_counts:
  "(op \<noteq> GetStatistics \<longrightarrow> returns_envelope (fst (exec op (st, this)))) \<and>
   (op \<noteq> GetStatistics \<and>
    (op = GetAllCountries \<longrightarrow> countries (cache this) = None) \<and>
    (op = GetAllPathways \<longrightarrow> pathways (cache this) = None) \<longrightarrow>
      (\<exists>a. awaited op st = Some a \<and> conveys a (fst (exec op (st, this))))) \<and>
   (\<exists>n. fst (exec GetStatistics (st, this)) = Inr (Counted n))"
proof (intro conjI impI)
  assume "op \<noteq> GetStatistics"
  then show "returns_envelope (fst (exec op (st, this)))"
    by (rule exec_returns_envelope)
next
  assume "op \<noteq> GetStatistics \<and>
    (op = GetAllCountries \<longrightarrow> countries (cache this) = None) \<and>
    (op = GetAllPathways \<longrightarrow> pathways (cache this) = None)"
  then show "\<exists>a. awaited op st = Some a \<and> conveys a (fst (exec op (st, this)))"
    using exec_conveys [of op this st] by blast
next
  show "\<exists>n. fst (exec GetStatistics (st, this)) = Inr (Counted n)"
    using getStatistics_never_throws [of st this] by (auto simp: split_beta)
qed

lemma plain_statistics:
  "fst (getStatistics (plain_store example_tables) constructor) =
     Inr \<lparr>count_countries = 2, count_universities = 1, count_courses = 3, count_pathways = 1\<rparr>"
proof -
  have u: "getAllUniversities (plain_store example_tables) =
      Inr \<lparr>data = Some (run_query (plain_store example_tables) universities_query), error = None\<rparr>"
    by (simp add: getAllUniversities_def settle_remote_select plain_store_sel)
  have k: "getAllCourses (plain_store example_tables) =
      Inr \<lparr>data = Some (run_query (plain_store example_tables) courses_query), error = None\<rparr>"
    by (simp add: getAllCourses_def settle_remote_select plain_store_sel)
  have c: "fst (getAllCountries (plain_store example_tables) constructor) =
      Inr \<lparr>data = Some (example_tables ''n_countries''), error = None\<rparr>"
    by (simp add: plain_countries)
  have p: "fst (getAllPathways (plain_store example_tables) constructor) =
      Inr \<lparr>data = Some (example_tables ''pathways''), error = None\<rparr>"
    by (simp add: plain_pathways)
  show ?thesis
    by (simp add: getStatistics_value [OF c u k p] length_or_0_def length_run_query_all
        universities_query_def courses_query_def plain_store_sel)
       (simp add: example_tables_def)
qed

text \<open>
  C8 as the specification states it fails: what \<open>getStatistics\<close> hands back is the record
  of counts, which has no \<^verbatim>\<open>data\<close> and no \<^verbatim>\<open>error\<close>.
\<close>

theorem getStatistics_no_envelope:
  "fst (exec GetStatistics (plain_store example_tables, constructor)) =
     Inr (Counted \<lparr>count_countries = 2, count_universities = 1, count_courses = 3,
                    count_pathways = 1\<rparr>) \<and>
   \<not> returns_envelope (fst (exec GetStatistics (plain_store example_tables, constructor)))"
  by (simp add: split_beta plain_statistics)

lemma example_course_ids:
  "run_query (plain_store example_tables) (getCourseById_query (Num 999)) = []"
  by (simp add: run_query_def getCourseById_query_def plain_store_sel order_rows_def
      matches_def example_tables_def cell_def sql_eq_def digits_examples)

lemma example_awaited:
  "awaited GetAllCourses (table_down ''new_courses'' example_tables) =
     Some (Rows (Raise (Cause ''fetch failed'')))"
  "awaited (GetCourseById (Num 999)) (plain_store example_tables) =
     Some (Row (Reply None (Some (Cause ''PGRST116''))))"
  "awaited GetAllCourses (silent_store example_tables) = Some (Rows (Reply None None))"
  by (simp_all add: remote_select_def remote_single_def table_down_sel query_tables
      plain_store_sel example_course_ids silent_store_def)

text \<open>
  On the example tables: a store that fails the courses read only, a lookup of a course
  that no row has, and the silent answer.
\<close>

theorem envelope_or_counts_witness:
  "GetAllCourses \<noteq> GetStatistics \<and> GetAllCourses \<noteq> GetAllCountries \<and>
   GetAllCourses \<noteq> GetAllPathways \<and>
   returns_envelope (fst (exec GetAllCourses (table_down ''new_courses'' example_tables, constructor))) \<and>
   fst (exec GetAllCourses (table_down ''new_courses'' example_tables, constructor)) =
     Inr (Listed \<lparr>data = None, error = Some (Cause ''fetch failed'')\<rparr>) \<and>
   GetCourseById (Num 999) \<noteq> GetStatistics \<and>
   fst (exec (GetCourseById (Num 999)) (plain_store example_tables, constructor)) =
     Inr (Found \<lparr>data = None, error = Some (Cause ''PGRST116'')\<rparr>) \<and>
   fst (exec GetAllCourses (silent_store example_tables, constructor)) =
     Inr (Listed \<lparr>data = None, error = None\<rparr>) \<and>
   (\<exists>n. fst (exec GetStatistics (table_down ''new_courses'' example_tables, constructor)) =
     Inr (Counted n))"
proof -
  note a = envelope_or_counts [of GetAllCourses "table_down ''new_courses'' example_tables"
      constructor]
  note b = envelope_or_counts [of "GetCourseById (Num 999)" "plain_store example_tables"
      constructor]
  note c = envelope_or_counts [of GetAllCourses "silent_store example_tables" constructor]
  have "fst (exec GetAllCourses (table_down ''new_courses'' example_tables, constructor)) =
     Inr (Listed \<lparr>data = None, error = Some (Cause ''fetch failed'')\<rparr>)"
    using a by (simp add: example_awaited del: awaited.simps exec.simps)
  moreover have "fst (exec (GetCourseById (Num 999)) (plain_store example_tables, constructor)) =
     Inr (Found \<lparr>data = None, error = Some (Cause ''PGRST116'')\<rparr>)"
    using b by (simp add: example_awaited del: awaited.simps exec.simps)
  moreover have "fst (exec GetAllCourses (silent_store example_tables, constructor)) =
     Inr (Listed \<lparr>data = None, error = None\<rparr>)"
    using c by (simp add: example_awaited del: awaited.simps exec.simps)
  moreover have "returns_envelope
      (fst (exec GetAllCourses (table_down ''new_courses'' example_tables, constructor)))"
    using a by (simp del: awaited.simps exec.simps)
  moreover have "\<exists>n. fst (exec GetStatistics
      (table_down ''new_courses'' example_tables, constructor)) = Inr (Counted n)"
    using a by (simp del: awaited.simps exec.simps)
  ultimately show ?thesis
    by (simp del: exec.simps)
qed
section \<open>C4: nothing empties the cache\<close>

lemma getStatistics_state:
  "snd (getStatistics st this) = snd (getAllPathways st (snd (getAllCountries st this)))"
  by (simp add: getStatistics_def split_beta Let_def)

lemma getAllCountries_keeps_loaded:
  "countries (cache this) = Some rs \<Longrightarrow> snd (getAllCountries st this) = this"
  by (simp add: getAllCountries_cached)

lemma getAllPathways_keeps_loaded:
  "pathways (cache this) = Some rs \<Longrightarrow> snd (getAllPathways st this) = this"
  by (simp add: getAllPathways_cached)

lemma exec_keeps_countries:
  assumes "countries (cache this) = Some rs"
  shows "countries (cache (snd (snd (exec op (st, this))))) = Some rs"
  using assms
  by (cases op)
     (simp_all add: split_beta getAllCountries_keeps_loaded getAllPathways_keeps_countries
        getStatistics_state)

lemma exec_keeps_pathways:
  assumes "pathways (cache this) = Some rs"
  shows "pathways (cache (snd (snd (exec op (st, this))))) = Some rs"
  using assms
  by (cases op)
     (simp_all add: split_beta getAllPathways_keeps_loaded getAllCountries_keeps_pathways
        getStatistics_state)

lemma exec_all_keeps_countries:
  "countries (cache (snd w)) = Some rs \<Longrightarrow> countries (cache (snd (exec_all ops w))) = Some rs"
proof (induction ops arbitrary: w)
  case Nil
  then show ?case by simp
next
  case (Cons x xs)
  have "countries (cache (snd (snd (exec x w)))) = Some rs"
    using exec_keeps_countries [of "snd w" rs x "fst w"] Cons.prems by simp
  then show ?case
    using Cons.IH by simp
qed

lemma exec_all_keeps_pathways:
  "pathways (cache (snd w)) = Some rs \<Longrightarrow> pathways (cache (snd (exec_all ops w))) = Some rs"
proof (induction ops arbitrary: w)
  case Nil
  then show ?case by simp
next
  case (Cons x xs)
  have "pathways (cache (snd (snd (exec x w)))) = Some rs"
    using exec_keeps_pathways [of "snd w" rs x "fst w"] Cons.prems by simp
  then show ?case
    using Cons.IH by simp
qed

lemma advance_keeps_countries:
  assumes "countries (cache (svc w)) = Some rs" and "waiting_countries w = 0"
  shows "countries (cache (svc (advance e w))) = Some rs \<and> waiting_countries (advance e w) = 0"
proof (cases e)
  case (Whole x st)
  then show ?thesis
    using assms exec_keeps_countries [of "svc w" rs x st] by simp
next
  case Enter_getAllCountries
  then show ?thesis
    using assms by (simp add: getAllCountries_enter_def)
next
  case (Resume_getAllCountries resp)
  then show ?thesis
    using assms by simp
next
  case Enter_getAllPathways
  then show ?thesis
    using assms by (simp add: getAllPathways_enter_def)
next
  case (Resume_getAllPathways resp)
  then show ?thesis
    using assms
    by (cases "waiting_pathways w")
       (simp_all add: getAllPathways_resume_state split: response.splits option.splits)
qed

lemma advance_keeps_pathways:
  assumes "pathways (cache (svc w)) = Some rs" and "waiting_pathways w = 0"
  shows "pathways (cache (svc (advance e w))) = Some rs \<and> waiting_pathways (advance e w) = 0"
proof (cases e)
  case (Whole x st)
  then show ?thesis
    using assms exec_keeps_pathways [of "svc w" rs x st] by simp
next
  case Enter_getAllCountries
  then show ?thesis
    using assms by (simp add: getAllCountries_enter_def)
next
  case (Resume_getAllCountries resp)
  then show ?thesis
    using assms
    by (cases "waiting_countries w")
       (simp_all add: getAllCountries_resume_state split: response.splits option.splits)
next
  case Enter_getAllPathways
  then show ?thesis
    using assms by (simp add: getAllPathways_enter_def)
next
  case (Resume_getAllPathways resp)
  then show ?thesis
    using assms by simp
qed

lemma run_keeps_countries:
  "countries (cache (svc w)) = Some rs \<Longrightarrow> waiting_countries w = 0 \<Longrightarrow>
   countries (cache (svc (run evs w))) = Some rs \<and> waiting_countries (run evs w) = 0"
proof (induction evs arbitrary: w)
  case Nil
  then show ?case by simp
next
  case (Cons e evs)
  then show ?case
    using advance_keeps_countries [of w rs e] by simp
qed

lemma run_keeps_pathways:
  "pathways (cache (svc w)) = Some rs \<Longrightarrow> waiting_pathways w = 0 \<Longrightarrow>
   pathways (cache (svc (run evs w))) = Some rs \<and> waiting_pathways (run evs w) = 0"
proof (induction evs arbitrary: w)
  case Nil
  then show ?case by simp
next
  case (Cons e evs)
  then show ?case
    using advance_keeps_pathways [of w rs e] by simp
qed

text \<open>A run of calls that do not overlap is a run of \<open>Whole\<close> events.\<close>

lemma exec_all_as_run:
  "\<exists>evs. svc (run evs \<lparr>svc = this, waiting_countries = m, waiting_pathways = n\<rparr>) =
     snd (exec_all ops (st, this))"
proof (induction ops arbitrary: st this)
  case Nil
  have "svc (run [] \<lparr>svc = this, waiting_countries = m, waiting_pathways = n\<rparr>) =
      snd (exec_all [] (st, this))"
    by simp
  then show ?case by blast
next
  case (Cons x xs)
  obtain r st' this' where e: "exec x (st, this) = (r, st', this')"
    by (cases "exec x (st, this)") auto
  from Cons [of this' st'] obtain evs
    where "svc (run evs \<lparr>svc = this', waiting_countries = m, waiting_pathways = n\<rparr>) =
      snd (exec_all xs (st', this'))"
    by blast
  then have "svc (run (Whole x st # evs) \<lparr>svc = this, waiting_countries = m, waiting_pathways = n\<rparr>) =
      snd (exec_all (x # xs) (st, this))"
    using e by simp
  then show ?case by blast
qed

text \<open>
  C4 as the code has it. The class has no method that empties a cache slot. Once a slot
  holds rows and no call of its method is waiting for the store, it holds the same rows
  after any calls of public methods, in any order and overlap, and the next
  \<open>getAllCountries\<close> (\<open>getAllPathways\<close>) hands back those rows without going to the
  store, whatever the store holds by then.
\<close>

theorem cache_never_invalidated:
  "(countries (cache (svc w)) = Some rs \<and> waiting_countries w = 0 \<longrightarrow>
      countries (cache (svc (run evs w))) = Some rs \<and>
      waiting_countries (run evs w) = 0 \<and>
      getAllCountries_enter (svc (run evs w)) =
        Finished (Inr \<lparr>data = Some rs, error = None\<rparr>) \<and>
      fst (getAllCountries st (svc (run evs w))) = Inr \<lparr>data = Some rs, error = None\<rparr>) \<and>
   (pathways (cache (svc w)) = Some ps \<and> waiting_pathways w = 0 \<longrightarrow>
      pathways (cache (svc (run evs w))) = Some ps \<and>
      waiting_pathways (run evs w) = 0 \<and>
      getAllPathways_enter (svc (run evs w)) =
        Finished (Inr \<lparr>data = Some ps, error = None\<rparr>) \<and>
      fst (getAllPathways st (svc (run evs w))) = Inr \<lparr>data = Some ps, error = None\<rparr>)"
proof (intro conjI impI)
  assume a: "countries (cache (svc w)) = Some rs \<and> waiting_countries w = 0"
  then show c: "countries (cache (svc (run evs w))) = Some rs"
    using run_keeps_countries [of w rs evs] by simp
  from a show "waiting_countries (run evs w) = 0"
    using run_keeps_countries [of w rs evs] by simp
  from c show "getAllCountries_enter (svc (run evs w)) =
        Finished (Inr \<lparr>data = Some rs, error = None\<rparr>)"
    by (simp add: getAllCountries_enter_def)
  from c show "fst (getAllCountries st (svc (run evs w))) = Inr \<lparr>data = Some rs, error = None\<rparr>"
    by (simp add: getAllCountries_cached)
next
  assume a: "pathways (cache (svc w)) = Some ps \<and> waiting_pathways w = 0"
  then show c: "pathways (cache (svc (run evs w))) = Some ps"
    using run_keeps_pathways [of w ps evs] by simp
  from a show "waiting_pathways (run evs w) = 0"
    using run_keeps_pathways [of w ps evs] by simp
  from c show "getAllPathways_enter (svc (run evs w)) =
        Finished (Inr \<lparr>data = Some ps, error = None\<rparr>)"
    by (simp add: getAllPathways_enter_def)
  from c show "fst (getAllPathways st (svc (run evs w))) = Inr \<lparr>data = Some ps, error = None\<rparr>"
    by (simp add: getAllPathways_cached)
qed

text \<open>
  C4 as the specification states it fails: on a loaded service with no call waiting,
  there are no calls, in whatever order and overlap, after which \<open>getAllCountries\<close> goes
  to the store; it hands back the rows it holds even when the store's table is empty by
  then.
\<close>

theorem no_call_invalidates:
  "\<not> (\<exists>evs. getAllCountries_enter
          (svc (run evs \<lparr>svc = loaded, waiting_countries = 0, waiting_pathways = 0\<rparr>)) =
        Awaiting countries_query) \<and>
   fst (getAllCountries (plain_store (\<lambda>_. [])) loaded) =
     Inr \<lparr>data = Some (example_tables ''n_countries''), error = None\<rparr>"
proof
  show "\<not> (\<exists>evs. getAllCountries_enter
          (svc (run evs \<lparr>svc = loaded, waiting_countries = 0, waiting_pathways = 0\<rparr>)) =
        Awaiting countries_query)"
  proof
    assume "\<exists>evs. getAllCountries_enter
          (svc (run evs \<lparr>svc = loaded, waiting_countries = 0, waiting_pathways = 0\<rparr>)) =
        Awaiting countries_query"
    then obtain evs
      where a: "getAllCountries_enter
          (svc (run evs \<lparr>svc = loaded, waiting_countries = 0, waiting_pathways = 0\<rparr>)) =
        Awaiting countries_query"
      by blast
    have "countries (cache (svc (run evs
        \<lparr>svc = loaded, waiting_countries = 0, waiting_pathways = 0\<rparr>))) =
        Some (example_tables ''n_countries'')"
      using run_keeps_countries [of "\<lparr>svc = loaded, waiting_countries = 0, waiting_pathways = 0\<rparr>"
          "example_tables ''n_countries''" evs]
      by (simp add: loaded_def)
    then show False
      using a by (simp add: getAllCountries_enter_def)
  qed
  show "fst (getAllCountries (plain_store (\<lambda>_. [])) loaded) =
     Inr \<lparr>data = Some (example_tables ''n_countries''), error = None\<rparr>"
    by (simp add: getAllCountries_cached loaded_def)
qed

text \<open>
  On the example tables: overlapping and whole calls on a loaded service, among them an
  answer that comes for no waiting call; an unreachable store is not even asked.
\<close>

theorem cache_never_invalidated_witness:
  "countries (cache (svc \<lparr>svc = loaded, waiting_countries = 0, waiting_pathways = 0\<rparr>)) =
     Some (example_tables ''n_countries'') \<and>
   waiting_countries \<lparr>svc = loaded, waiting_countries = 0, waiting_pathways = 0\<rparr> = 0 \<and>
   fst (getAllCountries (unreachable_store example_tables)
     (svc (run [Enter_getAllCountries, Enter_getAllPathways,
                Whole GetStatistics (plain_store example_tables),
                Resume_getAllCountries (Reply None None),
                Whole (CreateCounselorRequest Map.empty) (plain_store example_tables),
                Resume_getAllPathways (Reply None None)]
        \<lparr>svc = loaded, waiting_countries = 0, waiting_pathways = 0\<rparr>))) =
     Inr \<lparr>data = Some (example_tables ''n_countries''), error = None\<rparr> \<and>
   pathways (cache (svc \<lparr>svc = snd (getAllPathways (plain_store example_tables) constructor),
      waiting_countries = 2, waiting_pathways = 0\<rparr>)) = Some (example_tables ''pathways'') \<and>
   fst (getAllPathways (unreachable_store example_tables)
     (svc (run [Resume_getAllCountries (Reply None None), Enter_getAllPathways,
                Resume_getAllPathways (Reply None None),
                Whole GetAllPathways (plain_store (\<lambda>_. []))]
        \<lparr>svc = snd (getAllPathways (plain_store example_tables) constructor),
         waiting_countries = 2, waiting_pathways = 0\<rparr>))) =
     Inr \<lparr>data = Some (example_tables ''pathways''), error = None\<rparr>"
proof -
  have c: "countries (cache (svc \<lparr>svc = loaded, waiting_countries = 0, waiting_pathways = 0\<rparr>)) =
     Some (example_tables ''n_countries'')"
    by (simp add: loaded_def)
  have p: "pathways (cache (svc \<lparr>svc = snd (getAllPathways (plain_store example_tables) constructor),
      waiting_countries = 2, waiting_pathways = 0\<rparr>)) = Some (example_tables ''pathways'')"
    by (simp add: plain_pathways)
  show ?thesis
    using c p
      cache_never_invalidated [of "\<lparr>svc = loaded, waiting_countries = 0, waiting_pathways = 0\<rparr>"
        "example_tables ''n_countries''"
        "[Enter_getAllCountries, Enter_getAllPathways,
          Whole GetStatistics (plain_store example_tables),
          Resume_getAllCountries (Reply None None),
          Whole (CreateCounselorRequest Map.empty) (plain_store example_tables),
          Resume_getAllPathways (Reply None None)]"
        "unreachable_store example_tables" "example_tables ''pathways''"]
      cache_never_invalidated [of
        "\<lparr>svc = snd (getAllPathways (plain_store example_tables) constructor),
          waiting_countries = 2, waiting_pathways = 0\<rparr>"
        "example_tables ''n_countries''"
        "[Resume_getAllCountries (Reply None None), Enter_getAllPathways,
          Resume_getAllPathways (Reply None None),
          Whole GetAllPathways (plain_store (\<lambda>_. []))]"
        "unreachable_store example_tables" "example_tables ''pathways''"]
    by (simp del: run.simps advance.simps)
qed
section \<open>C3: overlapping calls\<close>

lemma resume_each_awaiting:
  "fst (resume_each getAllCountries_resume (map (\<lambda>st. (Awaiting q, st)) sts) this) =
     map (\<lambda>st. settle (remote_select st q)) sts"
  "fst (resume_each getAllPathways_resume (map (\<lambda>st. (Awaiting q, st)) sts) this) =
     map (\<lambda>st. settle (remote_select st q)) sts"
proof (induction sts arbitrary: this)
  case Nil
  {
    case 1
    show ?case by simp
  next
    case 2
    show ?case by simp
  }
next
  case (Cons a sts)
  {
    case 1
    show ?case
      using Cons.IH(1) [of "snd (getAllCountries_resume (remote_select a q) this)"]
        getAllCountries_resume_settle [of "remote_select a q" this]
      by (simp add: split_beta)
  next
    case 2
    show ?case
      using Cons.IH(2) [of "snd (getAllPathways_resume (remote_select a q) this)"]
        getAllPathways_resume_settle [of "remote_select a q" this]
      by (simp add: split_beta)
  }
qed

lemma remote_reads_awaiting:
  "remote_reads (map (fst \<circ> Pair (Awaiting q)) sts) = length sts"
  by (simp add: remote_reads_def comp_def)

text \<open>
  C3 as the code has it. The methods keep no record of a load in flight. Callers that
  overlap on an empty slot each send their own read: as many reads go out as there are
  callers, and each caller gets the envelope of the answer to its own read.
\<close>

theorem overlapping_calls_each_read:
  "(countries (cache this) = None \<longrightarrow>
      fst (concurrent_getAllCountries sts this) = length sts \<and>
      fst (snd (concurrent_getAllCountries sts this)) =
        map (\<lambda>st. settle (remote_select st countries_query)) sts) \<and>
   (pathways (cache this) = None \<longrightarrow>
      fst (concurrent_getAllPathways sts this) = length sts \<and>
      fst (snd (concurrent_getAllPathways sts this)) =
        map (\<lambda>st. settle (remote_select st pathways_query)) sts)"
  by (simp add: concurrent_getAllCountries_def concurrent_getAllPathways_def
      getAllCountries_enter_def getAllPathways_enter_def split_beta Let_def
      resume_each_awaiting remote_reads_awaiting)

text \<open>
  C3 as the specification states it fails: two callers that overlap on a new service
  send two reads, not one.
\<close>

theorem two_callers_two_reads:
  "fst (concurrent_getAllCountries [plain_store example_tables, plain_store example_tables]
     constructor) = 2"
  by (simp add: concurrent_getAllCountries_def getAllCountries_enter_def constructor_def
      split_beta remote_reads_def)

text \<open>Two callers on a new service, the store going down between their reads: two reads,
  and the callers get different envelopes.\<close>

theorem overlapping_calls_each_read_witness:
  "countries (cache constructor) = None \<and>
   fst (concurrent_getAllCountries [plain_store example_tables, unreachable_store example_tables]
     constructor) = 2 \<and>
   fst (snd (concurrent_getAllCountries
     [plain_store example_tables, unreachable_store example_tables] constructor)) =
     [Inr \<lparr>data = Some (example_tables ''n_countries''), error = None\<rparr>,
      Inr \<lparr>data = None, error = Some (Cause ''fetch failed'')\<rparr>] \<and>
   pathways (cache constructor) = None \<and>
   fst (concurrent_getAllPathways [plain_store example_tables, plain_store example_tables]
     constructor) = 2"
proof -
  have c: "countries (cache constructor) = None" "pathways (cache constructor) = None"
    by (simp_all add: constructor_def)
  have u: "settle (remote_select (unreachable_store example_tables) countries_query) =
      Inr \<lparr>data = None, error = Some (Cause ''fetch failed'')\<rparr>"
    by (simp add: settle_remote_select unreachable_store_def plain_store_def)
  have v: "settle (remote_select (plain_store example_tables) countries_query) =
      Inr \<lparr>data = Some (example_tables ''n_countries''), error = None\<rparr>"
    by (simp add: settle_remote_select plain_store_sel run_countries)
  show ?thesis
    using c u v
      overlapping_calls_each_read [of constructor
        "[plain_store example_tables, unreachable_store example_tables]"]
      overlapping_calls_each_read [of constructor
        "[plain_store example_tables, plain_store example_tables]"]
    by simp
qed

section \<open>C1: creating a request\<close>

lemma remote_insert_cases:
  "remote_insert st t new =
     (case refuses st (tables st) (Insert t new) of
        None \<Rightarrow>
          (Reply (Some (map (\<lambda>r. defaults st t ++ r) new)) None,
           st\<lparr>tables := (tables st)(t := tables st t @ map (\<lambda>r. defaults st t ++ r) new)\<rparr>)
      | Some f \<Rightarrow> (unserved f, st))"
  by (simp add: remote_insert_def Let_def split: option.splits)

text \<open>
  C1 as the code has it. \<open>createCounselorRequest\<close> looks at no stored request and makes
  no error of its own: it sends the caller's object to the store. When the store accepts
  the insert, one row is appended, the caller's object over the column defaults, and the
  call hands back that row with no error; when the store does not serve the insert, the
  table is as before and the call hands back no data and the client's error (the store's
  cause, or none for the silent answer).
\<close>

theorem createCounselorRequest_inserts:
  "(refuses st (tables st) (Insert ''counselor_requests'' [to_json requestData]) = None \<longrightarrow>
      createCounselorRequest st requestData =
        (Inr \<lparr>data = Some [defaults st ''counselor_requests'' ++ to_json requestData],
              error = None\<rparr>,
         st\<lparr>tables := (tables st)
              (''counselor_requests'' := tables st ''counselor_requests'' @
                 [defaults st ''counselor_requests'' ++ to_json requestData])\<rparr>)) \<and>
   (refuses st (tables st) (Insert ''counselor_requests'' [to_json requestData]) = Some f \<longrightarrow>
      createCounselorRequest st requestData =
        (Inr \<lparr>data = None, error = fault_error f\<rparr>, st))"
  by (cases f) (simp_all add: createCounselorRequest_def remote_insert_cases settle_simps)

lemma to_json_second_request: "to_json second_request k = second_request k"
  by (simp add: to_json_def second_request_def)

lemma plain_create:
  "createCounselorRequest (plain_store ts) second_request =
     (Inr \<lparr>data = Some [Map.empty ++ to_json second_request], error = None\<rparr>,
      (plain_store ts)\<lparr>tables := ts(''counselor_requests'' := ts ''counselor_requests'' @
         [Map.empty ++ to_json second_request])\<rparr>)"
  by (simp add: createCounselorRequest_def remote_insert_cases settle_simps plain_store_sel)

lemma plain_store_update_tables: "(plain_store ts)\<lparr>tables := ts'\<rparr> = plain_store ts'"
  by (simp add: plain_store_def)

text \<open>
  C1 as the specification states it fails. Student 7 has an open request; a second
  request of the same student is stored with no error, and the table then holds two
  open requests of student 7. On an empty table, two calls for one student store two
  open requests and neither caller gets an error.
\<close>

theorem duplicate_request_stored:
  "map_sum id error (fst (createCounselorRequest (plain_store example_tables) second_request)) =
     Inr None \<and>
   map (\<lambda>r. (r ''student_id'', r ''status''))
     (tables (snd (createCounselorRequest (plain_store example_tables) second_request))
        ''counselor_requests'') =
     [(Some (Num 7), Some (Str ''requested'')), (Some (Num 8), Some (Str ''approved'')),
      (Some (Num 7), Some (Str ''requested''))] \<and>
   map_sum id error (fst (createCounselorRequest (plain_store (\<lambda>_. [])) second_request)) =
     Inr None \<and>
   map_sum id error (fst (createCounselorRequest
     (snd (createCounselorRequest (plain_store (\<lambda>_. [])) second_request)) second_request)) =
     Inr None \<and>
   map (\<lambda>r. (r ''student_id'', r ''status''))
     (tables (snd (createCounselorRequest
        (snd (createCounselorRequest (plain_store (\<lambda>_. [])) second_request)) second_request))
        ''counselor_requests'') =
     [(Some (Num 7), Some (Str ''requested'')), (Some (Num 7), Some (Str ''requested''))]"
  by (simp add: plain_create plain_store_update_tables plain_store_sel map_add_def
      to_json_second_request)
     (simp add: second_request_def example_tables_def open_request_def approved_request_def)

text \<open>On the example tables: an accepted insert and a refused one.\<close>

theorem createCounselorRequest_inserts_witness:
  "refuses (plain_store example_tables) (tables (plain_store example_tables))
     (Insert ''counselor_requests'' [to_json second_request]) = None \<and>
   length (tables (snd (createCounselorRequest (plain_store example_tables) second_request))
     ''counselor_requests'') = 3 \<and>
   refuses (unreachable_store example_tables) (tables (unreachable_store example_tables))
     (Insert ''counselor_requests'' [to_json second_request]) =
     Some (Rejects (Cause ''fetch failed'')) \<and>
   createCounselorRequest (unreachable_store example_tables) second_request =
     (Inr \<lparr>data = None, error = Some (Cause ''fetch failed'')\<rparr>, unreachable_store example_tables)"
proof -
  have a: "refuses (plain_store example_tables) (tables (plain_store example_tables))
     (Insert ''counselor_requests'' [to_json second_request]) = None"
    by (simp add: plain_store_sel)
  have b: "refuses (unreachable_store example_tables) (tables (unreachable_store example_tables))
     (Insert ''counselor_requests'' [to_json second_request]) =
     Some (Rejects (Cause ''fetch failed''))"
    by (simp add: unreachable_store_def)
  have c: "length (example_tables ''counselor_requests'') = 2"
    by (simp add: example_tables_def)
  show ?thesis
    using a b c
      createCounselorRequest_inserts [of "plain_store example_tables" second_request
        "Rejects (Cause ''fetch failed'')"]
      createCounselorRequest_inserts [of "unreachable_store example_tables" second_request
        "Rejects (Cause ''fetch failed'')"]
    by (simp add: plain_store_sel)
qed

section \<open>The status update\<close>

lemma notes_default:
  "truthy (if adminNotes = Undefined then Null else adminNotes) = truthy adminNotes"
  "truthy adminNotes \<Longrightarrow> (if adminNotes = Undefined then Null else adminNotes) = adminNotes"
  by (cases adminNotes; simp)+

lemma updateData_status:
  "to_json (updateData now1 now2 status adminNotes) ''status'' =
     (if status = Undefined then None else Some status)"
  by (cases status) (simp_all add: updateData_def to_json_def Let_def)

lemma updateData_updated_at:
  "to_json (updateData now1 now2 status adminNotes) ''updated_at'' = Some (Str now1)"
  by (simp add: updateData_def to_json_def Let_def)

lemma updateData_admin_notes:
  "to_json (updateData now1 now2 status adminNotes) ''admin_notes'' =
     (if truthy adminNotes then Some adminNotes else None)"
  by (cases adminNotes) (simp_all add: updateData_def to_json_def Let_def)

lemma updateData_approved_at:
  "to_json (updateData now1 now2 status adminNotes) ''approved_at'' =
     (if status = Str ''approved'' then Some (Str now2) else None)"
  by (simp add: updateData_def to_json_def Let_def)

lemma updateData_other:
  "k \<noteq> ''status'' \<Longrightarrow> k \<noteq> ''updated_at'' \<Longrightarrow> k \<noteq> ''admin_notes'' \<Longrightarrow>
   k \<noteq> ''approved_at'' \<Longrightarrow> to_json (updateData now1 now2 status adminNotes) k = None"
  by (simp add: updateData_def to_json_def Let_def)

lemma patched_row:
  "(r ++ to_json (updateData now1 now2 status adminNotes)) k =
     (case to_json (updateData now1 now2 status adminNotes) k of None \<Rightarrow> r k | Some v \<Rightarrow> Some v)"
  by (simp add: map_add_def)

lemma matches_id_patched:
  "matches st [Eq ''id'' (to_text i)] (r ++ to_json (updateData now1 now2 status adminNotes)) =
   matches st [Eq ''id'' (to_text i)] r"
  by (simp add: matches_def cell_def patched_row updateData_other)

lemma filter_map_if:
  assumes "\<And>x. P x \<Longrightarrow> P (f x)"
  shows "filter P (map (\<lambda>x. if P x then f x else x) xs) = map f (filter P xs)"
  using assms by (induction xs) auto

lemma filter_not_map_if:
  assumes "\<And>x. P x \<Longrightarrow> P (f x)"
  shows "filter (\<lambda>x. \<not> P x) (map (\<lambda>x. if P x then f x else x) xs) = filter (\<lambda>x. \<not> P x) xs"
  using assms by (induction xs) auto

lemma remote_update_single_cases:
  "remote_update_single st t patch cs =
     (case refuses st (tables st) (UpdateSingle t patch cs) of
        Some f \<Rightarrow> (unserved f, st)
      | None \<Rightarrow>
          (case filter (matches st cs) (tables st t) of
             [r] \<Rightarrow>
               (Reply (Some (r ++ patch)) None,
                st\<lparr>tables := (tables st)
                   (t := map (\<lambda>x. if matches st cs x then x ++ patch else x) (tables st t))\<rparr>)
           | _ \<Rightarrow> (Reply None (Some (Cause ''PGRST116'')), st)))"
  by (simp add: remote_update_single_def split: option.splits)

lemma update_accepted:
  assumes "refuses st (tables st) (UpdateSingle ''counselor_requests''
             (to_json (updateData now1 now2 status adminNotes)) [Eq ''id'' (to_text i)]) = None"
    and "stored_request st i = [r]"
  shows "updateCounselorRequestStatus st now1 now2 i status adminNotes =
     (Inr \<lparr>data = Some (r ++ to_json (updateData now1 now2 status adminNotes)), error = None\<rparr>,
      st\<lparr>tables := (tables st)
        (''counselor_requests'' :=
           map (\<lambda>x. if matches st [Eq ''id'' (to_text i)] x
                     then x ++ to_json (updateData now1 now2 status adminNotes) else x)
             (tables st ''counselor_requests''))\<rparr>)"
  using assms
  by (simp add: updateCounselorRequestStatus_def remote_update_single_cases settle_simps
      stored_request_def)

lemma matches_id_independent: "matches (st\<lparr>tables := ts\<rparr>) [Eq ''id'' (to_text i)] = matches st [Eq ''id'' (to_text i)]"
  by (simp add: matches_def fun_eq_iff)

lemma update_accepted_stored:
  assumes "refuses st (tables st) (UpdateSingle ''counselor_requests''
             (to_json (updateData now1 now2 status adminNotes)) [Eq ''id'' (to_text i)]) = None"
    and "stored_request st i = [r]"
  shows "stored_request (snd (updateCounselorRequestStatus st now1 now2 i status adminNotes)) i =
     [r ++ to_json (updateData now1 now2 status adminNotes)]"
proof -
  have "filter (matches st [Eq ''id'' (to_text i)])
          (map (\<lambda>x. if matches st [Eq ''id'' (to_text i)] x
                     then x ++ to_json (updateData now1 now2 status adminNotes) else x)
             (tables st ''counselor_requests'')) =
        map (\<lambda>x. x ++ to_json (updateData now1 now2 status adminNotes))
          (filter (matches st [Eq ''id'' (to_text i)]) (tables st ''counselor_requests''))"
    by (rule filter_map_if) (simp add: matches_id_patched)
  then show ?thesis
    using assms(2)
    by (simp add: update_accepted [OF assms] stored_request_def matches_id_independent)
qed

lemma update_refused:
  assumes "refuses st (tables st) (UpdateSingle ''counselor_requests''
             (to_json (updateData now1 now2 status adminNotes)) [Eq ''id'' (to_text i)]) = Some f"
  shows "updateCounselorRequestStatus st now1 now2 i status adminNotes =
     (Inr \<lparr>data = None, error = fault_error f\<rparr>, st)"
  using assms
  by (cases f)
     (simp_all add: updateCounselorRequestStatus_def remote_update_single_cases settle_simps)

lemma update_not_single:
  assumes "refuses st (tables st) (UpdateSingle ''counselor_requests''
             (to_json (updateData now1 now2 status adminNotes)) [Eq ''id'' (to_text i)]) = None"
    and "length (stored_request st i) \<noteq> 1"
  shows "updateCounselorRequestStatus st now1 now2 i status adminNotes =
     (Inr \<lparr>data = None, error = Some (Cause ''PGRST116'')\<rparr>, st)"
proof (cases "filter (matches st [Eq ''id'' (to_text i)]) (tables st ''counselor_requests'')")
  case Nil
  then show ?thesis
    using assms(1)
    by (simp add: updateCounselorRequestStatus_def remote_update_single_cases settle_simps)
next
  case (Cons a as)
  then obtain b bs where "as = b # bs"
    using assms(2) by (cases as) (simp_all add: stored_request_def)
  then show ?thesis
    using assms(1) Cons
    by (simp add: updateCounselorRequestStatus_def remote_update_single_cases settle_simps)
qed

section \<open>C2: the status is not validated\<close>

text \<open>
  C2 as the code has it. \<open>updateCounselorRequestStatus\<close> reads neither the stored
  status nor the value of the new one. For every new status that is not
  \<^verbatim>\<open>undefined\<close>: when the store accepts the update and one row has the id, the call
  hands back the patched row with no error and the stored status is the new status,
  whatever it was before. The id reaches the store as text, so the row is the one whose
  id the store takes to equal that text. The stored row stays as it was only when the
  store does not serve the update, or when not exactly one row has the id; the call then
  hands back no data and the client's error (the store's cause, or none for the silent
  answer), or \<^verbatim>\<open>PGRST116\<close>.
\<close>

theorem status_update_unvalidated:
  "(refuses st (tables st) (UpdateSingle ''counselor_requests''
       (to_json (updateData now1 now2 status adminNotes)) [Eq ''id'' (to_text i)]) = None \<and>
    stored_request st i = [r] \<and> status \<noteq> Undefined \<longrightarrow>
      fst (updateCounselorRequestStatus st now1 now2 i status adminNotes) =
        Inr \<lparr>data = Some (r ++ to_json (updateData now1 now2 status adminNotes)),
             error = None\<rparr> \<and>
      stored_request (snd (updateCounselorRequestStatus st now1 now2 i status adminNotes)) i =
        [r ++ to_json (updateData now1 now2 status adminNotes)] \<and>
      (r ++ to_json (updateData now1 now2 status adminNotes)) ''status'' = Some status) \<and>
   (refuses st (tables st) (UpdateSingle ''counselor_requests''
       (to_json (updateData now1 now2 status adminNotes)) [Eq ''id'' (to_text i)]) = Some f \<longrightarrow>
      updateCounselorRequestStatus st now1 now2 i status adminNotes =
        (Inr \<lparr>data = None, error = fault_error f\<rparr>, st)) \<and>
   (refuses st (tables st) (UpdateSingle ''counselor_requests''
       (to_json (updateData now1 now2 status adminNotes)) [Eq ''id'' (to_text i)]) = None \<and>
    length (stored_request st i) \<noteq> 1 \<longrightarrow>
      updateCounselorRequestStatus st now1 now2 i status adminNotes =
        (Inr \<lparr>data = None, error = Some (Cause ''PGRST116'')\<rparr>, st))"
proof (intro conjI impI)
  assume a: "refuses st (tables st) (UpdateSingle ''counselor_requests''
       (to_json (updateData now1 now2 status adminNotes)) [Eq ''id'' (to_text i)]) = None \<and>
    stored_request st i = [r] \<and> status \<noteq> Undefined"
  then show "fst (updateCounselorRequestStatus st now1 now2 i status adminNotes) =
        Inr \<lparr>data = Some (r ++ to_json (updateData now1 now2 status adminNotes)),
             error = None\<rparr>"
    by (simp add: update_accepted)
  from a show "stored_request (snd (updateCounselorRequestStatus st now1 now2 i status adminNotes)) i =
        [r ++ to_json (updateData now1 now2 status adminNotes)]"
    by (simp add: update_accepted_stored)
  from a show "(r ++ to_json (updateData now1 now2 status adminNotes)) ''status'' = Some status"
    by (simp add: patched_row updateData_status)
next
  assume "refuses st (tables st) (UpdateSingle ''counselor_requests''
       (to_json (updateData now1 now2 status adminNotes)) [Eq ''id'' (to_text i)]) = Some f"
  then show "updateCounselorRequestStatus st now1 now2 i status adminNotes =
        (Inr \<lparr>data = None, error = fault_error f\<rparr>, st)"
    by (rule update_refused)
next
  assume "refuses st (tables st) (UpdateSingle ''counselor_requests''
       (to_json (updateData now1 now2 status adminNotes)) [Eq ''id'' (to_text i)]) = None \<and>
    length (stored_request st i) \<noteq> 1"
  then show "updateCounselorRequestStatus st now1 now2 i status adminNotes =
        (Inr \<lparr>data = None, error = Some (Cause ''PGRST116'')\<rparr>, st)"
    by (simp add: update_not_single)
qed

lemma plain_stored_requests:
  "stored_request (plain_store example_tables) (Num 2) = [approved_request]"
  "stored_request (plain_store example_tables) (Num 1) = [open_request]"
  "stored_request (plain_store example_tables) (Num 99) = []"
  "stored_request (plain_store example_tables) (Str ''2'') = [approved_request]"
  by (simp_all add: stored_request_def plain_store_sel example_tables_def matches_def
      open_request_def approved_request_def cell_def sql_eq_def digits_examples)

lemma plain_accepts_update:
  "refuses (plain_store ts) (tables (plain_store ts)) (UpdateSingle t patch cs) = None"
  by (simp add: plain_store_sel)

text \<open>
  C2 as the specification states it fails. Request 2 is approved; declining it is
  accepted with no error and the stored status becomes \<^verbatim>\<open>declined\<close>. A status outside
  the two named ones is stored as well.
\<close>

theorem approved_request_declined:
  "approved_request ''status'' = Some (Str ''approved'') \<and>
   map_sum id error
     (fst (updateCounselorRequestStatus (plain_store example_tables)
        ''2025-04-01T12:00:00.000Z'' ''2025-04-01T12:00:00.001Z'' (Num 2) (Str ''declined'')
        Undefined)) = Inr None \<and>
   map (\<lambda>r. r ''status'')
     (stored_request
        (snd (updateCounselorRequestStatus (plain_store example_tables)
           ''2025-04-01T12:00:00.000Z'' ''2025-04-01T12:00:00.001Z'' (Num 2) (Str ''declined'')
           Undefined)) (Num 2)) = [Some (Str ''declined'')] \<and>
   map (\<lambda>r. r ''status'')
     (stored_request
        (snd (updateCounselorRequestStatus (plain_store example_tables)
           ''2025-04-01T12:00:00.000Z'' ''2025-04-01T12:00:00.001Z'' (Num 2) (Str ''archived'')
           Undefined)) (Num 2)) = [Some (Str ''archived'')]"
proof -
  have "approved_request ''status'' = Some (Str ''approved'')"
    by (simp add: approved_request_def)
  moreover have "map_sum id error
     (fst (updateCounselorRequestStatus (plain_store example_tables)
        ''2025-04-01T12:00:00.000Z'' ''2025-04-01T12:00:00.001Z'' (Num 2) (Str ''declined'')
        Undefined)) = Inr None"
    by (simp add: update_accepted [OF plain_accepts_update plain_stored_requests(1)])
  moreover have "map (\<lambda>r. r ''status'')
     (stored_request
        (snd (updateCounselorRequestStatus (plain_store example_tables)
           ''2025-04-01T12:00:00.000Z'' ''2025-04-01T12:00:00.001Z'' (Num 2) (Str s)
           Undefined)) (Num 2)) = [Some (Str s)]" for s
    by (simp add: update_accepted_stored [OF plain_accepts_update plain_stored_requests(1)]
        patched_row updateData_status)
  ultimately show ?thesis
    by simp
qed

text \<open>
  On the example tables: an accepted update, a refused one, one for an id that no row
  has, and one with the id given as a string.
\<close>

theorem status_update_unvalidated_witness:
  "refuses (plain_store example_tables) (tables (plain_store example_tables))
     (UpdateSingle ''counselor_requests''
        (to_json (updateData ''2025-04-01T12:00:00.000Z'' ''2025-04-01T12:00:00.001Z''
           (Str ''declined'') Undefined)) [Eq ''id'' (to_text (Num 2))]) = None \<and>
   stored_request (plain_store example_tables) (Num 2) = [approved_request] \<and>
   Str ''declined'' \<noteq> Undefined \<and>
   (approved_request ++ to_json (updateData ''2025-04-01T12:00:00.000Z''
      ''2025-04-01T12:00:00.001Z'' (Str ''declined'') Undefined)) ''status'' =
     Some (Str ''declined'') \<and>
   refuses (unreachable_store example_tables) (tables (unreachable_store example_tables))
     (UpdateSingle ''counselor_requests''
        (to_json (updateData ''2025-04-01T12:00:00.000Z'' ''2025-04-01T12:00:00.001Z''
           (Str ''declined'') Undefined)) [Eq ''id'' (to_text (Num 2))]) =
     Some (Rejects (Cause ''fetch failed'')) \<and>
   updateCounselorRequestStatus (unreachable_store example_tables)
     ''2025-04-01T12:00:00.000Z'' ''2025-04-01T12:00:00.001Z'' (Num 2) (Str ''declined'')
     Undefined =
     (Inr \<lparr>data = None, error = Some (Cause ''fetch failed'')\<rparr>,
      unreachable_store example_tables) \<and>
   length (stored_request (plain_store example_tables) (Num 99)) \<noteq> 1 \<and>
   updateCounselorRequestStatus (plain_store example_tables)
     ''2025-04-01T12:00:00.000Z'' ''2025-04-01T12:00:00.001Z'' (Num 99) (Str ''declined'')
     Undefined =
     (Inr \<lparr>data = None, error = Some (Cause ''PGRST116'')\<rparr>, plain_store example_tables) \<and>
   stored_request (plain_store example_tables) (Str ''2'') = [approved_request] \<and>
   fst (updateCounselorRequestStatus (plain_store example_tables)
     ''2025-04-01T12:00:00.000Z'' ''2025-04-01T12:00:00.001Z'' (Str ''2'') (Str ''declined'')
     Undefined) =
     Inr \<lparr>data = Some (approved_request ++ to_json (updateData ''2025-04-01T12:00:00.000Z''
            ''2025-04-01T12:00:00.001Z'' (Str ''declined'') Undefined)),
          error = None\<rparr>"
proof -
  let ?a = "''2025-04-01T12:00:00.000Z''" and ?b = "''2025-04-01T12:00:00.001Z''"
  have b: "refuses (unreachable_store example_tables) (tables (unreachable_store example_tables))
     (UpdateSingle ''counselor_requests''
        (to_json (updateData ?a ?b (Str ''declined'') Undefined)) [Eq ''id'' (to_text (Num 2))]) =
     Some (Rejects (Cause ''fetch failed''))"
    by (simp add: unreachable_store_def)
  show ?thesis
    using b plain_stored_requests
      plain_accepts_update [of example_tables "''counselor_requests''"
        "to_json (updateData ?a ?b (Str ''declined'') Undefined)" "[Eq ''id'' (to_text (Num 2))]"]
      plain_accepts_update [of example_tables "''counselor_requests''"
        "to_json (updateData ?a ?b (Str ''declined'') Undefined)" "[Eq ''id'' (to_text (Num 99))]"]
      status_update_unvalidated [of "plain_store example_tables" ?a ?b "Str ''declined''"
        Undefined "Num 2" approved_request "Rejects (Cause ''fetch failed'')"]
      status_update_unvalidated [of "unreachable_store example_tables" ?a ?b "Str ''declined''"
        Undefined "Num 2" approved_request "Rejects (Cause ''fetch failed'')"]
      status_update_unvalidated [of "plain_store example_tables" ?a ?b "Str ''declined''"
        Undefined "Num 99" approved_request "Rejects (Cause ''fetch failed'')"]
      plain_accepts_update [of example_tables "''counselor_requests''"
        "to_json (updateData ?a ?b (Str ''declined'') Undefined)" "[Eq ''id'' (to_text (Str ''2''))]"]
      status_update_unvalidated [of "plain_store example_tables" ?a ?b "Str ''declined''"
        Undefined "Str ''2''" approved_request "Rejects (Cause ''fetch failed'')"]
    by simp
qed

section \<open>C6: the timestamps of an update\<close>

text \<open>
  C6 as the code has it. An update that the store accepts for the one row with the id
  sets \<^verbatim>\<open>updated_at\<close> to the first clock reading of the call, so it does not go back
  when the clock does not. It sets \<^verbatim>\<open>approved_at\<close> to the second reading exactly when
  the new status is \<^verbatim>\<open>approved\<close>, whatever the stored status was, and leaves it as it
  was otherwise.
\<close>

theorem update_timestamps:
  "refuses st (tables st) (UpdateSingle ''counselor_requests''
       (to_json (updateData now1 now2 status adminNotes)) [Eq ''id'' (to_text i)]) = None \<and>
   stored_request st i = [r] \<longrightarrow>
     stored_request (snd (updateCounselorRequestStatus st now1 now2 i status adminNotes)) i =
       [r ++ to_json (updateData now1 now2 status adminNotes)] \<and>
     (r ++ to_json (updateData now1 now2 status adminNotes)) ''updated_at'' = Some (Str now1) \<and>
     (status = Str ''approved'' \<longrightarrow>
        (r ++ to_json (updateData now1 now2 status adminNotes)) ''approved_at'' =
          Some (Str now2)) \<and>
     (status \<noteq> Str ''approved'' \<longrightarrow>
        (r ++ to_json (updateData now1 now2 status adminNotes)) ''approved_at'' =
          r ''approved_at'') \<and>
     (r ''updated_at'' = Some (Str t0) \<and> t0 \<le> now1 \<longrightarrow>
        (\<exists>t1. (r ++ to_json (updateData now1 now2 status adminNotes)) ''updated_at'' =
           Some (Str t1) \<and> t0 \<le> t1))"
  by (simp add: update_accepted_stored patched_row updateData_updated_at updateData_approved_at)

text \<open>
  C6 as the specification states it fails. Request 2 is approved already; approving it
  again writes \<^verbatim>\<open>approved_at\<close> anew.
\<close>

theorem approved_at_rewritten:
  "approved_request ''status'' = Some (Str ''approved'') \<and>
   approved_request ''approved_at'' = Some (Str ''2025-03-03T10:00:00.000Z'') \<and>
   map (\<lambda>r. r ''approved_at'')
     (stored_request
        (snd (updateCounselorRequestStatus (plain_store example_tables)
           ''2025-04-01T12:00:00.000Z'' ''2025-04-01T12:00:00.001Z'' (Num 2) (Str ''approved'')
           Undefined)) (Num 2)) = [Some (Str ''2025-04-01T12:00:00.001Z'')]"
proof -
  have "approved_request ''status'' = Some (Str ''approved'')"
    "approved_request ''approved_at'' = Some (Str ''2025-03-03T10:00:00.000Z'')"
    by (simp_all add: approved_request_def)
  moreover have "map (\<lambda>r. r ''approved_at'')
     (stored_request
        (snd (updateCounselorRequestStatus (plain_store example_tables)
           ''2025-04-01T12:00:00.000Z'' ''2025-04-01T12:00:00.001Z'' (Num 2) (Str ''approved'')
           Undefined)) (Num 2)) = [Some (Str ''2025-04-01T12:00:00.001Z'')]"
    by (simp add: update_accepted_stored [OF plain_accepts_update plain_stored_requests(1)]
        patched_row updateData_approved_at)
  ultimately show ?thesis
    by simp
qed

text \<open>On the example tables: approving the open request, and declining the approved one.\<close>

theorem update_timestamps_witness:
  "stored_request (plain_store example_tables) (Num 1) = [open_request] \<and>
   (open_request ++ to_json (updateData ''2025-04-01T12:00:00.000Z''
      ''2025-04-01T12:00:00.001Z'' (Str ''approved'') Undefined)) ''approved_at'' =
     Some (Str ''2025-04-01T12:00:00.001Z'') \<and>
   stored_request (plain_store example_tables) (Num 2) = [approved_request] \<and>
   Str ''declined'' \<noteq> Str ''approved'' \<and>
   (approved_request ++ to_json (updateData ''2025-04-01T12:00:00.000Z''
      ''2025-04-01T12:00:00.001Z'' (Str ''declined'') Undefined)) ''approved_at'' =
     approved_request ''approved_at'' \<and>
   approved_request ''updated_at'' = Some (Str ''2025-03-03T10:00:00.000Z'') \<and>
   ''2025-03-03T10:00:00.000Z'' \<le> ''2025-04-01T12:00:00.000Z'' \<and>
   (approved_request ++ to_json (updateData ''2025-04-01T12:00:00.000Z''
      ''2025-04-01T12:00:00.001Z'' (Str ''declined'') Undefined)) ''updated_at'' =
     Some (Str ''2025-04-01T12:00:00.000Z'')"
proof -
  let ?a = "''2025-04-01T12:00:00.000Z''" and ?b = "''2025-04-01T12:00:00.001Z''"
  have u: "approved_request ''updated_at'' = Some (Str ''2025-03-03T10:00:00.000Z'')"
    by (simp add: approved_request_def)
  have le: "''2025-03-03T10:00:00.000Z'' \<le> ''2025-04-01T12:00:00.000Z''"
    by simp
  show ?thesis
    using u le plain_stored_requests
      plain_accepts_update [of example_tables "''counselor_requests''"
        "to_json (updateData ?a ?b (Str ''approved'') Undefined)" "[Eq ''id'' (to_text (Num 1))]"]
      plain_accepts_update [of example_tables "''counselor_requests''"
        "to_json (updateData ?a ?b (Str ''declined'') Undefined)" "[Eq ''id'' (to_text (Num 2))]"]
      update_timestamps [of "plain_store example_tables" ?a ?b "Str ''approved''" Undefined
        "Num 1" open_request "''2025-03-03T10:00:00.000Z''"]
      update_timestamps [of "plain_store example_tables" ?a ?b "Str ''declined''" Undefined
        "Num 2" approved_request "''2025-03-03T10:00:00.000Z''"]
    by simp
qed

section \<open>C10: what an update leaves alone\<close>

text \<open>
  C10. The object that \<open>updateCounselorRequestStatus\<close> sends has no column but
  \<^verbatim>\<open>status\<close>, \<^verbatim>\<open>updated_at\<close>, \<^verbatim>\<open>admin_notes\<close> and \<^verbatim>\<open>approved_at\<close>. In the stored
  row after an accepted update, \<^verbatim>\<open>admin_notes\<close> is as before when the notes are
  omitted, \<^verbatim>\<open>null\<close> or empty (any falsy value) and is the given notes otherwise,
  \<^verbatim>\<open>approved_at\<close> is as before unless the new status is \<^verbatim>\<open>approved\<close>, every other
  column is as before, and so are the rows with another id.
\<close>

theorem update_frame:
  "dom (to_json (updateData now1 now2 status adminNotes)) \<subseteq>
     {''status'', ''updated_at'', ''admin_notes'', ''approved_at''} \<and>
   (refuses st (tables st) (UpdateSingle ''counselor_requests''
       (to_json (updateData now1 now2 status adminNotes)) [Eq ''id'' (to_text i)]) = None \<and>
    stored_request st i = [r] \<longrightarrow>
      stored_request (snd (updateCounselorRequestStatus st now1 now2 i status adminNotes)) i =
        [r ++ to_json (updateData now1 now2 status adminNotes)] \<and>
      (\<not> truthy adminNotes \<longrightarrow>
         (r ++ to_json (updateData now1 now2 status adminNotes)) ''admin_notes'' =
           r ''admin_notes'') \<and>
      (truthy adminNotes \<longrightarrow>
         (r ++ to_json (updateData now1 now2 status adminNotes)) ''admin_notes'' =
           Some adminNotes) \<and>
      (status \<noteq> Str ''approved'' \<longrightarrow>
         (r ++ to_json (updateData now1 now2 status adminNotes)) ''approved_at'' =
           r ''approved_at'') \<and>
      (k \<notin> {''status'', ''updated_at'', ''admin_notes'', ''approved_at''} \<longrightarrow>
         (r ++ to_json (updateData now1 now2 status adminNotes)) k = r k) \<and>
      (r ++ to_json (updateData now1 now2 status adminNotes)) ''student_id'' =
        r ''student_id'' \<and>
      (r ++ to_json (updateData now1 now2 status adminNotes)) ''requested_counselor_id'' =
        r ''requested_counselor_id'' \<and>
      (r ++ to_json (updateData now1 now2 status adminNotes)) ''requested_at'' =
        r ''requested_at'' \<and>
      filter (\<lambda>x. \<not> matches st [Eq ''id'' (to_text i)] x)
        (tables (snd (updateCounselorRequestStatus st now1 now2 i status adminNotes))
           ''counselor_requests'') =
      filter (\<lambda>x. \<not> matches st [Eq ''id'' (to_text i)] x) (tables st ''counselor_requests''))"
proof (intro conjI impI)
  show "dom (to_json (updateData now1 now2 status adminNotes)) \<subseteq>
     {''status'', ''updated_at'', ''admin_notes'', ''approved_at''}"
  proof
    fix k
    assume "k \<in> dom (to_json (updateData now1 now2 status adminNotes))"
    then have some: "to_json (updateData now1 now2 status adminNotes) k \<noteq> None"
      by (simp add: dom_def)
    show "k \<in> {''status'', ''updated_at'', ''admin_notes'', ''approved_at''}"
    proof (rule ccontr)
      assume "k \<notin> {''status'', ''updated_at'', ''admin_notes'', ''approved_at''}"
      then have "k \<noteq> ''status''" "k \<noteq> ''updated_at''" "k \<noteq> ''admin_notes''"
        "k \<noteq> ''approved_at''"
        by simp_all
      then have "to_json (updateData now1 now2 status adminNotes) k = None"
        by (rule updateData_other)
      with some show False
        by simp
    qed
  qed
next
  assume a: "refuses st (tables st) (UpdateSingle ''counselor_requests''
       (to_json (updateData now1 now2 status adminNotes)) [Eq ''id'' (to_text i)]) = None \<and>
    stored_request st i = [r]"
  then show "stored_request (snd (updateCounselorRequestStatus st now1 now2 i status adminNotes)) i =
        [r ++ to_json (updateData now1 now2 status adminNotes)]"
    by (simp add: update_accepted_stored)
  have "filter (\<lambda>x. \<not> matches st [Eq ''id'' (to_text i)] x)
          (map (\<lambda>x. if matches st [Eq ''id'' (to_text i)] x
                     then x ++ to_json (updateData now1 now2 status adminNotes) else x)
             (tables st ''counselor_requests'')) =
        filter (\<lambda>x. \<not> matches st [Eq ''id'' (to_text i)] x) (tables st ''counselor_requests'')"
    by (rule filter_not_map_if) (simp add: matches_id_patched)
  with a show "filter (\<lambda>x. \<not> matches st [Eq ''id'' (to_text i)] x)
        (tables (snd (updateCounselorRequestStatus st now1 now2 i status adminNotes))
           ''counselor_requests'') =
      filter (\<lambda>x. \<not> matches st [Eq ''id'' (to_text i)] x) (tables st ''counselor_requests'')"
    by (simp add: update_accepted)
next
  assume "k \<notin> {''status'', ''updated_at'', ''admin_notes'', ''approved_at''}"
  then show "(r ++ to_json (updateData now1 now2 status adminNotes)) k = r k"
    by (simp add: patched_row updateData_other)
qed (simp_all add: patched_row updateData_admin_notes updateData_approved_at updateData_other)

text \<open>On the example tables: declining the approved request with empty, null, omitted and
  given notes.\<close>

theorem update_frame_witness:
  "stored_request (plain_store example_tables) (Num 2) = [approved_request] \<and>
   \<not> truthy (Str '''') \<and> \<not> truthy Null \<and> \<not> truthy Undefined \<and>
   (approved_request ++ to_json (updateData ''2025-04-01T12:00:00.000Z''
      ''2025-04-01T12:00:00.001Z'' (Str ''declined'') (Str ''''))) ''admin_notes'' =
     Some (Str ''good fit'') \<and>
   (approved_request ++ to_json (updateData ''2025-04-01T12:00:00.000Z''
      ''2025-04-01T12:00:00.001Z'' (Str ''declined'') Null)) ''admin_notes'' =
     Some (Str ''good fit'') \<and>
   (approved_request ++ to_json (updateData ''2025-04-01T12:00:00.000Z''
      ''2025-04-01T12:00:00.001Z'' (Str ''declined'') Undefined)) ''admin_notes'' =
     Some (Str ''good fit'') \<and>
   truthy (Str ''call first'') \<and>
   (approved_request ++ to_json (updateData ''2025-04-01T12:00:00.000Z''
      ''2025-04-01T12:00:00.001Z'' (Str ''declined'') (Str ''call first''))) ''admin_notes'' =
     Some (Str ''call first'') \<and>
   Str ''declined'' \<noteq> Str ''approved'' \<and>
   (approved_request ++ to_json (updateData ''2025-04-01T12:00:00.000Z''
      ''2025-04-01T12:00:00.001Z'' (Str ''declined'') (Str ''''))) ''approved_at'' =
     Some (Str ''2025-03-03T10:00:00.000Z'') \<and>
   ''id'' \<notin> {''status'', ''updated_at'', ''admin_notes'', ''approved_at''} \<and>
   (approved_request ++ to_json (updateData ''2025-04-01T12:00:00.000Z''
      ''2025-04-01T12:00:00.001Z'' (Str ''declined'') (Str ''''))) ''id'' = Some (Num 2) \<and>
   (approved_request ++ to_json (updateData ''2025-04-01T12:00:00.000Z''
      ''2025-04-01T12:00:00.001Z'' (Str ''declined'') (Str ''''))) ''student_id'' =
     Some (Num 8) \<and>
   filter (\<lambda>x. \<not> matches (plain_store example_tables) [Eq ''id'' (to_text (Num 2))] x)
     (tables (snd (updateCounselorRequestStatus (plain_store example_tables)
        ''2025-04-01T12:00:00.000Z'' ''2025-04-01T12:00:00.001Z'' (Num 2) (Str ''declined'')
        (Str ''''))) ''counselor_requests'') = [open_request]"
proof -
  let ?a = "''2025-04-01T12:00:00.000Z''" and ?b = "''2025-04-01T12:00:00.001Z''"
  have acc: "refuses (plain_store example_tables) (tables (plain_store example_tables))
      (UpdateSingle ''counselor_requests'' (to_json (updateData ?a ?b (Str ''declined'') n))
         [Eq ''id'' (to_text (Num 2))]) = None" for n
    by (rule plain_accepts_update)
  have cols: "approved_request ''admin_notes'' = Some (Str ''good fit'')"
    "approved_request ''approved_at'' = Some (Str ''2025-03-03T10:00:00.000Z'')"
    "approved_request ''id'' = Some (Num 2)" "approved_request ''student_id'' = Some (Num 8)"
    by (simp_all add: approved_request_def)
  have others: "filter (\<lambda>x. \<not> matches (plain_store example_tables) [Eq ''id'' (to_text (Num 2))] x)
      (tables (plain_store example_tables) ''counselor_requests'') = [open_request]"
    by (simp add: plain_store_sel example_tables_def matches_def open_request_def
        approved_request_def cell_def sql_eq_def digits_examples)
  show ?thesis
    using acc cols others plain_stored_requests(1)
      update_frame [of ?a ?b "Str ''declined''" "Str ''''" "plain_store example_tables" "Num 2"
        approved_request "''id''"]
      update_frame [of ?a ?b "Str ''declined''" Null "plain_store example_tables" "Num 2"
        approved_request "''id''"]
      update_frame [of ?a ?b "Str ''declined''" Undefined "plain_store example_tables" "Num 2"
        approved_request "''id''"]
      update_frame [of ?a ?b "Str ''declined''" "Str ''call first''" "plain_store example_tables"
        "Num 2" approved_request "''id''"]
    by simp
qed

section \<open>C7: search filters\<close>















end
